theory Spec2Isabelle
  imports Complex_Main "HOL-Library.Stream"
begin

section \<open>Exceptions\<close>

text \<open>
  The Python exceptions the simulator can raise.  A function that may raise returns
  \<open>error + 'a\<close>, with \<open>Inl\<close> carrying the exception.
\<close>

datatype error =
    AssertionError
  | AttributeError
  | IndexError
  | TypeError
  | ValueError
  | ZeroDivisionError

section \<open>Distributed driver: batch sizes and aggregation\<close>

text \<open>
  \<^verbatim>\<open>p_phys_sweep_simulation_mpi\<close>, first four lines: the batch of rounds of the process
  \<^verbatim>\<open>my_rank\<close> among \<^verbatim>\<open>num_cores\<close> processes.  The three quantities are non-negative
  Python ints (a sample count, the size of the communicator and a rank), on which
  \<^verbatim>\<open>//\<close> and \<^verbatim>\<open>%\<close> are \<open>div\<close> and \<open>mod\<close> of \<open>nat\<close>; a zero divisor raises.
\<close>

definition batch_size :: "nat \<Rightarrow> nat \<Rightarrow> nat \<Rightarrow> error + nat" where
  "batch_size samples_per_point num_cores my_rank =
     (if num_cores = 0 then Inl ZeroDivisionError
      else
        let batch = samples_per_point div num_cores;
            remainder = samples_per_point mod num_cores
        in Inr (if my_rank < remainder then batch + 1 else batch))"

text \<open>
  The dictionary a process builds for one rate, \<^verbatim>\<open>local_result_dict\<close>.  A rate is a
  float, modelled as a real number.
\<close>

record local_result_dict =
  d_rank :: nat
  d_p_phys :: real
  d_batch_size :: nat
  d_logical_error_counts :: int

text \<open>
  \<^verbatim>\<open>complete_results\<close>: one entry per rate (the source's key is \<^verbatim>\<open>str\<close> of the rate,
  which distinguishes different rates) and the entry \<^verbatim>\<open>"total_samples"\<close>.
\<close>

record complete_results =
  per_rate :: "real \<rightharpoonup> int"
  total_samples :: nat

text \<open>The body of the loop \<^verbatim>\<open>for r in self.results_per_batch_per_p_phys\<close>.\<close>

definition add_result :: "local_result_dict \<Rightarrow> complete_results \<Rightarrow> complete_results" where
  "add_result r cr =
     \<lparr> per_rate =
         (case per_rate cr (d_p_phys r) of
            Some c \<Rightarrow> (per_rate cr)(d_p_phys r \<mapsto> c + d_logical_error_counts r)
          | None \<Rightarrow> (per_rate cr)(d_p_phys r \<mapsto> d_logical_error_counts r)),
       total_samples = total_samples cr + d_batch_size r \<rparr>"

fun aggregate :: "local_result_dict list \<Rightarrow> complete_results \<Rightarrow> complete_results" where
  "aggregate [] cr = cr"
| "aggregate (r # rs) cr = aggregate rs (add_result r cr)"

text \<open>
  The dictionaries one process builds, one per rate index \<open>j\<close>, in the order of the loop
  over \<^verbatim>\<open>range(len(self.p_phys))\<close>; \<open>count j\<close> is the number of logical errors
  its rounds counted at that rate.
\<close>

definition local_results ::
  "nat \<Rightarrow> nat \<Rightarrow> real list \<Rightarrow> (nat \<Rightarrow> int) \<Rightarrow> nat \<Rightarrow> error + local_result_dict list" where
  "local_results samples_per_point num_cores p_phys count my_rank =
     (case batch_size samples_per_point num_cores my_rank of
        Inl e \<Rightarrow> Inl e
      | Inr b \<Rightarrow>
          Inr (map (\<lambda>j. \<lparr> d_rank = my_rank, d_p_phys = p_phys ! j,
                           d_batch_size = b, d_logical_error_counts = count j \<rparr>)
                   [0..<length p_phys]))"

fun collect :: "(error + 'a) list \<Rightarrow> error + 'a list" where
  "collect [] = Inr []"
| "collect (x # xs) =
     (case x of
        Inl e \<Rightarrow> Inl e
      | Inr v \<Rightarrow> (case collect xs of Inl e \<Rightarrow> Inl e | Inr vs \<Rightarrow> Inr (v # vs)))"

text \<open>
  What the coordinator (rank 0) computes: \<^verbatim>\<open>results_per_batch_per_p_phys\<close> holds, in
  insertion order, its own dictionaries and then, for each rank \<open>k\<close> from 1 in turn, the
  dictionaries received from \<open>k\<close> (a rank's messages arrive in the order sent);
  \<open>count k j\<close> is the count of rank \<open>k\<close> at rate index \<open>j\<close>.
\<close>

definition p_phys_sweep_simulation_mpi ::
  "nat \<Rightarrow> nat \<Rightarrow> real list \<Rightarrow> (nat \<Rightarrow> nat \<Rightarrow> int) \<Rightarrow> error + complete_results" where
  "p_phys_sweep_simulation_mpi samples_per_point num_cores p_phys count =
     (case collect (map (\<lambda>k. local_results samples_per_point num_cores p_phys (count k) k)
                        (0 # [1..<num_cores])) of
        Inl e \<Rightarrow> Inl e
      | Inr results_per_batch_per_p_phys \<Rightarrow>
          Inr (aggregate (concat results_per_batch_per_p_phys)
                 \<lparr> per_rate = Map.empty, total_samples = 0 \<rparr>))"

section \<open>The Pauli-frame engine (class \<^verbatim>\<open>qec_flag_base_ckt_class\<close>)\<close>

text \<open>
  \<^verbatim>\<open>np.random.uniform()\<close> draws from a global generator.  The generator is modelled as
  the infinite stream of the draws still to come: a draw reads the head and leaves the
  tail.  Floats (draws, fault probabilities, scale factors) are modelled as reals.
\<close>

type_synonym 'a rand = "'a \<times> real stream"

text \<open>Statements in sequence; an exception ends the sequence.\<close>

fun steps :: "('s \<Rightarrow> error + 's) list \<Rightarrow> 's \<Rightarrow> error + 's" where
  "steps [] s = Inr s"
| "steps (f # fs) s = (case f s of Inl e \<Rightarrow> Inl e | Inr s' \<Rightarrow> steps fs s')"

text \<open>
  Reading and writing one element of a list or array by a non-negative index
  (every index of the simulator comes from a \<^verbatim>\<open>range\<close>); out of range raises.
\<close>

definition get_item :: "'a list \<Rightarrow> nat \<Rightarrow> error + 'a" where
  "get_item xs i = (if i < length xs then Inr (xs ! i) else Inl IndexError)"

definition set_item :: "'a list \<Rightarrow> nat \<Rightarrow> 'a \<Rightarrow> error + 'a list" where
  "set_item xs i v = (if i < length xs then Inr (xs[i := v]) else Inl IndexError)"

text \<open>
  \<^verbatim>\<open>np.logical_xor(a, b).astype(int)\<close>: an element counts as true when it is not zero;
  arrays of different lengths raise, unless one of them has length 1 and is broadcast.
\<close>

definition lxor :: "int \<Rightarrow> int \<Rightarrow> int" where
  "lxor x y = (if (x \<noteq> 0) \<noteq> (y \<noteq> 0) then 1 else 0)"

definition logical_xor :: "int list \<Rightarrow> int list \<Rightarrow> error + int list" where
  "logical_xor a b =
     (if length a = length b then Inr (map2 lxor a b)
      else if length a = 1 then Inr (map (lxor (hd a)) b)
      else if length b = 1 then Inr (map (\<lambda>x. lxor x (hd b)) a)
      else Inl ValueError)"

record qec_flag_base_ckt_class =
  num_data_qubits :: nat
  num_anc_qubits :: nat
  num_flag_qubits :: nat
  error_scale_factor_two_qubit_gate :: real
  error_scale_factor_single_qubit_gate :: real
  error_scale_factor_prep :: real
  error_scale_factor_meas :: real
  pauli_accumulator :: "int list"

definition num_all_qubits :: "qec_flag_base_ckt_class \<Rightarrow> nat" where
  "num_all_qubits c = num_data_qubits c + num_anc_qubits c + num_flag_qubits c"

definition data_qubits :: "qec_flag_base_ckt_class \<Rightarrow> nat list" where
  "data_qubits c = [0..<num_data_qubits c]"

definition anc_qubits :: "qec_flag_base_ckt_class \<Rightarrow> nat list" where
  "anc_qubits c = [num_data_qubits c..<num_data_qubits c + num_anc_qubits c]"

definition flag_qubits :: "qec_flag_base_ckt_class \<Rightarrow> nat list" where
  "flag_qubits c = [num_data_qubits c + num_anc_qubits c..<num_all_qubits c]"

text \<open>\<^verbatim>\<open>np.array([0]*(2*(self.num_all_qubits)))\<close>\<close>

definition zero_string :: "qec_flag_base_ckt_class \<Rightarrow> int list" where
  "zero_string c = replicate (2 * num_all_qubits c) 0"

definition clear_pauli_accumulator :: "qec_flag_base_ckt_class \<Rightarrow> qec_flag_base_ckt_class" where
  "clear_pauli_accumulator c = c\<lparr>pauli_accumulator := zero_string c\<rparr>"

text \<open>
  \<^verbatim>\<open>self.pauli_accumulator = np.logical_xor(self.pauli_accumulator, error_string).astype(int)\<close>
\<close>

definition xor_accumulator ::
  "int list \<Rightarrow> qec_flag_base_ckt_class \<Rightarrow> error + qec_flag_base_ckt_class" where
  "xor_accumulator error_string c =
     (case logical_xor (pauli_accumulator c) error_string of
        Inl e \<Rightarrow> Inl e
      | Inr acc \<Rightarrow> Inr (c\<lparr>pauli_accumulator := acc\<rparr>))"

text \<open>\<^verbatim>\<open>self.pauli_accumulator[i] = 0\<close>\<close>

definition clear_bit :: "nat \<Rightarrow> qec_flag_base_ckt_class \<Rightarrow> error + qec_flag_base_ckt_class" where
  "clear_bit i c =
     (case set_item (pauli_accumulator c) i 0 of
        Inl e \<Rightarrow> Inl e
      | Inr acc \<Rightarrow> Inr (c\<lparr>pauli_accumulator := acc\<rparr>))"

text \<open>
  The error string of one Pauli on one qubit, as the three-way \<^verbatim>\<open>if/elif\<close> of
  \<^verbatim>\<open>single_qubit_pauli_error\<close> and \<^verbatim>\<open>two_qubit_pauli_error\<close> builds it: 1 is X, 2 is Y,
  3 is Z, anything else leaves the string zero.
\<close>

definition pauli_string :: "qec_flag_base_ckt_class \<Rightarrow> int \<Rightarrow> nat \<Rightarrow> error + int list" where
  "pauli_string c pauli_idx qubit_idx =
     (if pauli_idx = 1 then set_item (zero_string c) qubit_idx 1
      else if pauli_idx = 2 then
        (case set_item (zero_string c) qubit_idx 1 of
           Inl e \<Rightarrow> Inl e
         | Inr es \<Rightarrow> set_item es (qubit_idx + num_all_qubits c) 1)
      else if pauli_idx = 3 then set_item (zero_string c) (qubit_idx + num_all_qubits c) 1
      else Inr (zero_string c))"

definition single_qubit_X_error ::
  "nat \<Rightarrow> real \<Rightarrow> qec_flag_base_ckt_class rand \<Rightarrow> error + qec_flag_base_ckt_class rand" where
  "single_qubit_X_error qubit_idx p_err = (\<lambda>(c, r).
     if shd r < p_err then
       (case set_item (zero_string c) qubit_idx 1 of
          Inl e \<Rightarrow> Inl e
        | Inr error_string \<Rightarrow>
            (case xor_accumulator error_string c of
               Inl e \<Rightarrow> Inl e
             | Inr c' \<Rightarrow> Inr (c', stl r)))
     else Inr (c, stl r))"

definition single_qubit_Z_error ::
  "nat \<Rightarrow> real \<Rightarrow> qec_flag_base_ckt_class rand \<Rightarrow> error + qec_flag_base_ckt_class rand" where
  "single_qubit_Z_error qubit_idx p_err = (\<lambda>(c, r).
     if shd r < p_err then
       (case set_item (zero_string c) (qubit_idx + num_all_qubits c) 1 of
          Inl e \<Rightarrow> Inl e
        | Inr error_string \<Rightarrow>
            (case xor_accumulator error_string c of
               Inl e \<Rightarrow> Inl e
             | Inr c' \<Rightarrow> Inr (c', stl r)))
     else Inr (c, stl r))"


definition single_qubit_pauli_error ::
  "int \<Rightarrow> nat \<Rightarrow> qec_flag_base_ckt_class \<Rightarrow> error + qec_flag_base_ckt_class" where
  "single_qubit_pauli_error pauli_idx qubit_idx c =
     (case pauli_string c pauli_idx qubit_idx of
        Inl e \<Rightarrow> Inl e
      | Inr error_string \<Rightarrow> xor_accumulator error_string c)"

text \<open>
  The choice among X, Y and Z by the second draw \<^verbatim>\<open>dec\<close>, shared by
  \<^verbatim>\<open>single_qubit_depol_error\<close> and \<^verbatim>\<open>one_stochastic_pauli_error_data_qubits\<close>.
\<close>

definition depol_choice ::
  "real \<Rightarrow> nat \<Rightarrow> qec_flag_base_ckt_class \<Rightarrow> error + qec_flag_base_ckt_class" where
  "depol_choice dec qubit_idx c =
     (if dec < 1/3 then single_qubit_pauli_error 1 qubit_idx c
      else if dec \<ge> 1/3 \<and> dec < 2/3 then single_qubit_pauli_error 2 qubit_idx c
      else if dec \<ge> 2/3 then single_qubit_pauli_error 3 qubit_idx c
      else Inl AssertionError)"

definition single_qubit_depol_error ::
  "nat \<Rightarrow> real \<Rightarrow> qec_flag_base_ckt_class rand \<Rightarrow> error + qec_flag_base_ckt_class rand" where
  "single_qubit_depol_error qubit_idx p_err = (\<lambda>(c, r).
     if shd r < p_err then
       (case depol_choice (shd (stl r)) qubit_idx c of
          Inl e \<Rightarrow> Inl e
        | Inr c' \<Rightarrow> Inr (c', stl (stl r)))
     else Inr (c, stl r))"

text \<open>
  \<^verbatim>\<open>one_stochastic_pauli_error_data_qubits\<close>: the loop over the data qubits, each with
  its own draws.
\<close>

definition one_stochastic_pauli_error_data_qubits ::
  "real \<Rightarrow> qec_flag_base_ckt_class rand \<Rightarrow> error + qec_flag_base_ckt_class rand" where
  "one_stochastic_pauli_error_data_qubits p_err = (\<lambda>(c, r).
     steps (map (\<lambda>n (c, r).
                   if shd r < p_err then
                     (case get_item (data_qubits c) n of
                        Inl e \<Rightarrow> Inl e
                      | Inr q \<Rightarrow>
                          (case depol_choice (shd (stl r)) q c of
                             Inl e \<Rightarrow> Inl e
                           | Inr c' \<Rightarrow> Inr (c', stl (stl r))))
                   else Inr (c, stl r))
                [0..<num_data_qubits c]) (c, r))"

definition two_qubit_pauli_error ::
  "int \<Rightarrow> int \<Rightarrow> nat \<Rightarrow> nat \<Rightarrow> qec_flag_base_ckt_class \<Rightarrow> error + qec_flag_base_ckt_class" where
  "two_qubit_pauli_error pauli_idx1 pauli_idx2 qubit_idx1 qubit_idx2 c =
     (case pauli_string c pauli_idx1 qubit_idx1 of
        Inl e \<Rightarrow> Inl e
      | Inr error_string1 \<Rightarrow>
          (case pauli_string c pauli_idx2 qubit_idx2 of
             Inl e \<Rightarrow> Inl e
           | Inr error_string2 \<Rightarrow>
               (case xor_accumulator error_string1 c of
                  Inl e \<Rightarrow> Inl e
                | Inr c' \<Rightarrow> xor_accumulator error_string2 c')))"

text \<open>
  The choice among the 15 two-qubit Paulis by the second draw \<^verbatim>\<open>dec\<close> in
  \<^verbatim>\<open>two_qubit_gate_depol_error\<close>.
\<close>

definition two_qubit_depol_choice ::
  "real \<Rightarrow> nat \<Rightarrow> nat \<Rightarrow> qec_flag_base_ckt_class \<Rightarrow> error + qec_flag_base_ckt_class" where
  "two_qubit_depol_choice dec qubit_idx1 qubit_idx2 c =
     (if dec < 1/15 then two_qubit_pauli_error 0 1 qubit_idx1 qubit_idx2 c
      else if dec \<ge> 1/15 \<and> dec < 2/15 then two_qubit_pauli_error 0 2 qubit_idx1 qubit_idx2 c
      else if dec \<ge> 2/15 \<and> dec < 3/15 then two_qubit_pauli_error 0 3 qubit_idx1 qubit_idx2 c
      else if dec \<ge> 3/15 \<and> dec < 4/15 then two_qubit_pauli_error 1 0 qubit_idx1 qubit_idx2 c
      else if dec \<ge> 4/15 \<and> dec < 5/15 then two_qubit_pauli_error 1 1 qubit_idx1 qubit_idx2 c
      else if dec \<ge> 5/15 \<and> dec < 6/15 then two_qubit_pauli_error 1 2 qubit_idx1 qubit_idx2 c
      else if dec \<ge> 6/15 \<and> dec < 7/15 then two_qubit_pauli_error 1 3 qubit_idx1 qubit_idx2 c
      else if dec \<ge> 7/15 \<and> dec < 8/15 then two_qubit_pauli_error 2 0 qubit_idx1 qubit_idx2 c
      else if dec \<ge> 8/15 \<and> dec < 9/15 then two_qubit_pauli_error 2 1 qubit_idx1 qubit_idx2 c
      else if dec \<ge> 9/15 \<and> dec < 10/15 then two_qubit_pauli_error 2 2 qubit_idx1 qubit_idx2 c
      else if dec \<ge> 10/15 \<and> dec < 11/15 then two_qubit_pauli_error 2 3 qubit_idx1 qubit_idx2 c
      else if dec \<ge> 11/15 \<and> dec < 12/15 then two_qubit_pauli_error 3 0 qubit_idx1 qubit_idx2 c
      else if dec \<ge> 12/15 \<and> dec < 13/15 then two_qubit_pauli_error 3 1 qubit_idx1 qubit_idx2 c
      else if dec \<ge> 13/15 \<and> dec < 14/15 then two_qubit_pauli_error 3 2 qubit_idx1 qubit_idx2 c
      else if dec \<ge> 14/15 then two_qubit_pauli_error 3 3 qubit_idx1 qubit_idx2 c
      else Inl AssertionError)"

definition two_qubit_gate_depol_error ::
  "nat \<Rightarrow> nat \<Rightarrow> real \<Rightarrow> qec_flag_base_ckt_class rand \<Rightarrow> error + qec_flag_base_ckt_class rand" where
  "two_qubit_gate_depol_error qubit_idx1 qubit_idx2 p_err = (\<lambda>(c, r).
     if shd r < p_err then
       (case two_qubit_depol_choice (shd (stl r)) qubit_idx1 qubit_idx2 c of
          Inl e \<Rightarrow> Inl e
        | Inr c' \<Rightarrow> Inr (c', stl (stl r)))
     else Inr (c, stl r))"

text \<open>
  The directed override of a test, class \<^verbatim>\<open>error_spec\<close>.  An override names its two
  qubits by index; \<^verbatim>\<open>error_loc\<close> may be left \<^verbatim>\<open>None\<close>.
\<close>

record error_spec =
  inject_error :: bool
  error_loc :: "int option"
  qubit_idx1 :: nat
  qubit_idx2 :: nat
  pauli_idx1 :: int
  pauli_idx2 :: int

definition two_qubit_gate_error ::
  "error_spec option \<Rightarrow> int \<Rightarrow> nat \<Rightarrow> nat \<Rightarrow> real \<Rightarrow>
   qec_flag_base_ckt_class rand \<Rightarrow> error + qec_flag_base_ckt_class rand" where
  "two_qubit_gate_error test_config loc depol_err_qubit_idx1 depol_err_qubit_idx2 p_err = (\<lambda>(c, r).
     case test_config of
       Some tc \<Rightarrow>
         if inject_error tc \<and> error_loc tc = Some loc then
           (case two_qubit_pauli_error (pauli_idx1 tc) (pauli_idx2 tc)
                   (qubit_idx1 tc) (qubit_idx2 tc) c of
              Inl e \<Rightarrow> Inl e
            | Inr c' \<Rightarrow> Inr (c', r))
         else Inr (c, r)
     | None \<Rightarrow>
         two_qubit_gate_depol_error depol_err_qubit_idx1 depol_err_qubit_idx2 p_err (c, r))"

text \<open>A statement of the circuit that draws nothing.\<close>

definition no_draw ::
  "(qec_flag_base_ckt_class \<Rightarrow> error + qec_flag_base_ckt_class) \<Rightarrow>
   qec_flag_base_ckt_class rand \<Rightarrow> error + qec_flag_base_ckt_class rand" where
  "no_draw f = (\<lambda>(c, r). case f c of Inl e \<Rightarrow> Inl e | Inr c' \<Rightarrow> Inr (c', r))"

definition prepare_Z_basis ::
  "nat \<Rightarrow> real \<Rightarrow> qec_flag_base_ckt_class rand \<Rightarrow> error + qec_flag_base_ckt_class rand" where
  "prepare_Z_basis qubit_idx p_err = (\<lambda>(c, r).
     steps [no_draw (clear_bit qubit_idx),
            no_draw (clear_bit (qubit_idx + num_all_qubits c)),
            single_qubit_X_error qubit_idx (error_scale_factor_prep c * p_err)] (c, r))"

definition prepare_X_basis ::
  "nat \<Rightarrow> real \<Rightarrow> qec_flag_base_ckt_class rand \<Rightarrow> error + qec_flag_base_ckt_class rand" where
  "prepare_X_basis qubit_idx p_err = (\<lambda>(c, r).
     steps [no_draw (clear_bit qubit_idx),
            no_draw (clear_bit (qubit_idx + num_all_qubits c)),
            single_qubit_Z_error qubit_idx (error_scale_factor_prep c * p_err)] (c, r))"

definition reset_ancilla ::
  "real \<Rightarrow> qec_flag_base_ckt_class rand \<Rightarrow> error + qec_flag_base_ckt_class rand" where
  "reset_ancilla p_err = (\<lambda>(c, r).
     steps (concat (map (\<lambda>i.
              [no_draw (clear_bit (num_data_qubits c + i)),
               no_draw (clear_bit (num_data_qubits c + i + num_all_qubits c)),
               single_qubit_X_error (num_data_qubits c + i) (error_scale_factor_prep c * p_err)])
            [0..<num_anc_qubits c])) (c, r))"

definition reset_flag ::
  "real \<Rightarrow> qec_flag_base_ckt_class rand \<Rightarrow> error + qec_flag_base_ckt_class rand" where
  "reset_flag p_err = (\<lambda>(c, r).
     steps (concat (map (\<lambda>i.
              [no_draw (clear_bit (num_data_qubits c + num_anc_qubits c + i)),
               no_draw (clear_bit (num_data_qubits c + num_anc_qubits c + i + num_all_qubits c)),
               single_qubit_Z_error (num_data_qubits c + num_anc_qubits c + i)
                 (error_scale_factor_prep c * p_err)])
            [0..<num_flag_qubits c])) (c, r))"

text \<open>
  Gates.  Each first propagates the Pauli it finds and then calls the fault of its
  kind.  The propagation of a gate is a definition of its own (\<open>h_propagate\<close>,
  \<open>cnot_propagate\<close>, ...): the statements of the gate before its fault.

  \<open>propagated_string src tgts c\<close> is the pattern
  \<^verbatim>\<open>if self.pauli_accumulator[src] == 1: error_string[t] = 1\<close> (for each \<open>t\<close> of
  \<open>tgts\<close>) on a fresh zero string.
\<close>

fun set_ones :: "int list \<Rightarrow> nat list \<Rightarrow> error + int list" where
  "set_ones es [] = Inr es"
| "set_ones es (t # ts) =
     (case set_item es t 1 of Inl e \<Rightarrow> Inl e | Inr es' \<Rightarrow> set_ones es' ts)"

definition propagated_string ::
  "nat \<Rightarrow> nat list \<Rightarrow> qec_flag_base_ckt_class \<Rightarrow> error + int list" where
  "propagated_string src tgts c =
     (case get_item (pauli_accumulator c) src of
        Inl e \<Rightarrow> Inl e
      | Inr b \<Rightarrow> if b = 1 then set_ones (zero_string c) tgts else Inr (zero_string c))"

fun xor_all ::
  "int list list \<Rightarrow> qec_flag_base_ckt_class \<Rightarrow> error + qec_flag_base_ckt_class" where
  "xor_all [] c = Inr c"
| "xor_all (es # ess) c =
     (case xor_accumulator es c of Inl e \<Rightarrow> Inl e | Inr c' \<Rightarrow> xor_all ess c')"

definition h_propagate :: "nat \<Rightarrow> qec_flag_base_ckt_class \<Rightarrow> error + qec_flag_base_ckt_class" where
  "h_propagate qubit_idx c =
     (case get_item (pauli_accumulator c) (qubit_idx + num_all_qubits c) of
        Inl e \<Rightarrow> Inl e
      | Inr z \<Rightarrow>
          (case get_item (pauli_accumulator c) qubit_idx of
             Inl e \<Rightarrow> Inl e
           | Inr x \<Rightarrow>
               Inr (c\<lparr>pauli_accumulator :=
                        (pauli_accumulator c)[qubit_idx := z, qubit_idx + num_all_qubits c := x]\<rparr>)))"

definition h ::
  "nat \<Rightarrow> real \<Rightarrow> error_spec option \<Rightarrow> int \<Rightarrow>
   qec_flag_base_ckt_class rand \<Rightarrow> error + qec_flag_base_ckt_class rand" where
  "h qubit_idx p_err test_config loc = (\<lambda>(c, r).
     steps [no_draw (h_propagate qubit_idx),
            single_qubit_depol_error qubit_idx (error_scale_factor_single_qubit_gate c * p_err)]
       (c, r))"

definition cnot_propagate ::
  "nat \<Rightarrow> nat \<Rightarrow> qec_flag_base_ckt_class \<Rightarrow> error + qec_flag_base_ckt_class" where
  "cnot_propagate control_idx target_idx c =
     (case propagated_string control_idx [target_idx] c of
        Inl e \<Rightarrow> Inl e
      | Inr error_string1 \<Rightarrow>
          (case propagated_string (target_idx + num_all_qubits c)
                  [control_idx + num_all_qubits c] c of
             Inl e \<Rightarrow> Inl e
           | Inr error_string2 \<Rightarrow> xor_all [error_string1, error_string2] c))"

definition cnot ::
  "nat \<Rightarrow> nat \<Rightarrow> real \<Rightarrow> error_spec option \<Rightarrow> int \<Rightarrow>
   qec_flag_base_ckt_class rand \<Rightarrow> error + qec_flag_base_ckt_class rand" where
  "cnot control_idx target_idx p_err test_config loc = (\<lambda>(c, r).
     steps [no_draw (cnot_propagate control_idx target_idx),
            two_qubit_gate_error None loc control_idx target_idx
              (error_scale_factor_two_qubit_gate c * p_err)] (c, r))"

definition xnot_propagate ::
  "nat \<Rightarrow> nat \<Rightarrow> qec_flag_base_ckt_class \<Rightarrow> error + qec_flag_base_ckt_class" where
  "xnot_propagate oplus_idx1 oplus_idx2 c =
     (case propagated_string (oplus_idx1 + num_all_qubits c) [oplus_idx2] c of
        Inl e \<Rightarrow> Inl e
      | Inr error_string1 \<Rightarrow>
          (case propagated_string (oplus_idx2 + num_all_qubits c) [oplus_idx1] c of
             Inl e \<Rightarrow> Inl e
           | Inr error_string2 \<Rightarrow> xor_all [error_string1, error_string2] c))"

definition xnot ::
  "nat \<Rightarrow> nat \<Rightarrow> real \<Rightarrow> error_spec option \<Rightarrow> int \<Rightarrow>
   qec_flag_base_ckt_class rand \<Rightarrow> error + qec_flag_base_ckt_class rand" where
  "xnot oplus_idx1 oplus_idx2 p_err test_config loc = (\<lambda>(c, r).
     steps [no_draw (xnot_propagate oplus_idx1 oplus_idx2),
            two_qubit_gate_error None loc oplus_idx1 oplus_idx2
              (error_scale_factor_two_qubit_gate c * p_err)] (c, r))"

definition ynot_propagate ::
  "nat \<Rightarrow> nat \<Rightarrow> qec_flag_base_ckt_class \<Rightarrow> error + qec_flag_base_ckt_class" where
  "ynot_propagate oplus_idx y_idx c =
     (case propagated_string (oplus_idx + num_all_qubits c)
             [y_idx, y_idx + num_all_qubits c] c of
        Inl e \<Rightarrow> Inl e
      | Inr error_string1 \<Rightarrow>
          (case propagated_string y_idx [oplus_idx] c of
             Inl e \<Rightarrow> Inl e
           | Inr error_string2 \<Rightarrow>
               (case propagated_string (y_idx + num_all_qubits c) [oplus_idx] c of
                  Inl e \<Rightarrow> Inl e
                | Inr error_string3 \<Rightarrow>
                    xor_all [error_string1, error_string2, error_string3] c)))"

definition ynot ::
  "nat \<Rightarrow> nat \<Rightarrow> real \<Rightarrow> error_spec option \<Rightarrow> int \<Rightarrow>
   qec_flag_base_ckt_class rand \<Rightarrow> error + qec_flag_base_ckt_class rand" where
  "ynot oplus_idx y_idx p_err test_config loc = (\<lambda>(c, r).
     steps [no_draw (ynot_propagate oplus_idx y_idx),
            two_qubit_gate_error None loc oplus_idx y_idx
              (error_scale_factor_two_qubit_gate c * p_err)] (c, r))"

definition cz_propagate ::
  "nat \<Rightarrow> nat \<Rightarrow> qec_flag_base_ckt_class \<Rightarrow> error + qec_flag_base_ckt_class" where
  "cz_propagate qubit_idx1' qubit_idx2' c =
     (case propagated_string qubit_idx1' [qubit_idx2' + num_all_qubits c] c of
        Inl e \<Rightarrow> Inl e
      | Inr error_string1 \<Rightarrow>
          (case propagated_string qubit_idx2' [qubit_idx1' + num_all_qubits c] c of
             Inl e \<Rightarrow> Inl e
           | Inr error_string2 \<Rightarrow> xor_all [error_string1, error_string2] c))"

definition cz ::
  "nat \<Rightarrow> nat \<Rightarrow> real \<Rightarrow> error_spec option \<Rightarrow> int \<Rightarrow>
   qec_flag_base_ckt_class rand \<Rightarrow> error + qec_flag_base_ckt_class rand" where
  "cz qubit_idx1' qubit_idx2' p_err test_config loc = (\<lambda>(c, r).
     steps [no_draw (cz_propagate qubit_idx1' qubit_idx2'),
            two_qubit_gate_error None loc qubit_idx1' qubit_idx2'
              (error_scale_factor_two_qubit_gate c * p_err)] (c, r))"

text \<open>
  Measurements return the outcome together with the circuit, which they leave as it
  is, and the rest of the draws.
\<close>

definition measure_Z_basis ::
  "nat \<Rightarrow> real \<Rightarrow> qec_flag_base_ckt_class rand \<Rightarrow> error + int \<times> qec_flag_base_ckt_class rand" where
  "measure_Z_basis qubit_idx p_err = (\<lambda>(c, r).
     case get_item (pauli_accumulator c) qubit_idx of
       Inl e \<Rightarrow> Inl e
     | Inr b \<Rightarrow>
         let meas_outcome = (if b = 1 then 1 else 0) in
         Inr (if shd r < error_scale_factor_meas c * p_err then 1 - meas_outcome else meas_outcome,
              (c, stl r)))"

definition measure_X_basis ::
  "nat \<Rightarrow> real \<Rightarrow> qec_flag_base_ckt_class rand \<Rightarrow> error + int \<times> qec_flag_base_ckt_class rand" where
  "measure_X_basis qubit_idx p_err = (\<lambda>(c, r).
     case get_item (pauli_accumulator c) (qubit_idx + num_all_qubits c) of
       Inl e \<Rightarrow> Inl e
     | Inr b \<Rightarrow>
         let meas_outcome = (if b = 1 then 1 else 0) in
         Inr (if shd r < error_scale_factor_meas c * p_err then 1 - meas_outcome else meas_outcome,
              (c, stl r)))"

section \<open>The protocol object (classes \<^verbatim>\<open>qec_flag_stabilizer_base\<close> and \<^verbatim>\<open>five_qubit_code_flag_protocol\<close>)\<close>

datatype syn_ex_status =
    IDLE
  | MEAS_GEN_WITH_FLAG
  | MEAS_GEN_WITHOUT_FLAG
  | DET_RAISED_FLAG
  | DET_NONZERO_SYNDROME
  | DET_UNRAISED_FLAG_AND_ZERO_SYNDROME

datatype error_model_enum =
    ONE_STOCHASTIC_PAULI_ERROR
  | CODE_CAPACITY_NOISE
  | CHAO_CKT_LVL_NOISE_WITHOUT_IDLING

text \<open>
  The three syndrome attributes hold values of different Python types in the course of
  a round: \<^verbatim>\<open>None\<close>; a flat array (\<^verbatim>\<open>np.array([syndrome])\<close> and what is appended to it);
  an array of rows of two entries (\<^verbatim>\<open>np.atleast_2d(np.array([syndrome, flag]))\<close> and
  what is appended to it); or, once finished, the string \<^verbatim>\<open>np.array2string\<close> makes of
  the array.  An entry of an array is an int, or \<^verbatim>\<open>None\<close> in a sentinel row.
\<close>

datatype pyval =
    PNone
  | Arr1 "int option list"
  | Arr2 "(int option \<times> int option) list"
  | PStr string

text \<open>
  A value of the outer lookup table: a dictionary from the key of the 2nd subround to
  a correction (as all the tables of the source have it), or a correction itself.
\<close>

datatype lut_entry = Inner "string \<rightharpoonup> int list" | Terminal "int list"

record five_qubit_code_flag_protocol =
  stab_num_data_qubits :: nat
  stab_num_anc_qubits :: nat
  stab_num_flag_qubits :: nat
  syndrome_lookup_table :: "string \<rightharpoonup> lut_entry"
  logical_ops :: "int list list"
  error_model :: error_model_enum
  stab_error_scale_factor_two_qubit_gate :: real
  stab_error_scale_factor_single_qubit_gate :: real
  stab_error_scale_factor_prep :: real
  stab_error_scale_factor_meas :: real
  logical_error_counts :: "int option list"
  syndrome_ex_status :: syn_ex_status
  current_syndrome_n_flag :: pyval
  syndrome_n_flag_1st_subround :: pyval
  syndrome_2nd_subround :: pyval
  qec_flag_base_ckt :: qec_flag_base_ckt_class

definition stab_num_all_qubits :: "five_qubit_code_flag_protocol \<Rightarrow> nat" where
  "stab_num_all_qubits s = stab_num_data_qubits s + stab_num_anc_qubits s + stab_num_flag_qubits s"

text \<open>The constructor of the circuit, with the arguments \<^verbatim>\<open>create_circuit\<close> passes.\<close>

definition new_circuit :: "five_qubit_code_flag_protocol \<Rightarrow> qec_flag_base_ckt_class" where
  "new_circuit s =
     \<lparr> num_data_qubits = stab_num_data_qubits s,
       num_anc_qubits = stab_num_anc_qubits s,
       num_flag_qubits = stab_num_flag_qubits s,
       error_scale_factor_two_qubit_gate = stab_error_scale_factor_two_qubit_gate s,
       error_scale_factor_single_qubit_gate = stab_error_scale_factor_single_qubit_gate s,
       error_scale_factor_prep = stab_error_scale_factor_prep s,
       error_scale_factor_meas = stab_error_scale_factor_meas s,
       pauli_accumulator = replicate (2 * stab_num_all_qubits s) 0 \<rparr>"

definition create_circuit :: "five_qubit_code_flag_protocol \<Rightarrow> five_qubit_code_flag_protocol" where
  "create_circuit s = s\<lparr>qec_flag_base_ckt := new_circuit s\<rparr>"

text \<open>
  \<^verbatim>\<open>__init__\<close>: the scale factors follow from the error model; the status starts
  \<^verbatim>\<open>IDLE\<close>, the records \<^verbatim>\<open>None\<close>, one count per rate \<^verbatim>\<open>None\<close>; the circuit is built from
  the same arguments as in \<^verbatim>\<open>create_circuit\<close>.
\<close>

definition model_scale_factor_two_qubit_gate :: "error_model_enum \<Rightarrow> real" where
  "model_scale_factor_two_qubit_gate em =
     (case em of CHAO_CKT_LVL_NOISE_WITHOUT_IDLING \<Rightarrow> 1 | _ \<Rightarrow> 0)"

definition model_scale_factor_prep_meas :: "error_model_enum \<Rightarrow> real" where
  "model_scale_factor_prep_meas em =
     (case em of CHAO_CKT_LVL_NOISE_WITHOUT_IDLING \<Rightarrow> 4 / 15 | _ \<Rightarrow> 0)"

definition init_protocol ::
  "nat \<Rightarrow> nat \<Rightarrow> nat \<Rightarrow> (string \<rightharpoonup> lut_entry) \<Rightarrow> int list list \<Rightarrow> nat \<Rightarrow> error_model_enum \<Rightarrow>
   five_qubit_code_flag_protocol" where
  "init_protocol k a f table ops num_rates em =
     \<lparr> stab_num_data_qubits = k,
       stab_num_anc_qubits = a,
       stab_num_flag_qubits = f,
       syndrome_lookup_table = table,
       logical_ops = ops,
       error_model = em,
       stab_error_scale_factor_two_qubit_gate = model_scale_factor_two_qubit_gate em,
       stab_error_scale_factor_single_qubit_gate = 0,
       stab_error_scale_factor_prep = model_scale_factor_prep_meas em,
       stab_error_scale_factor_meas = model_scale_factor_prep_meas em,
       logical_error_counts = replicate num_rates None,
       syndrome_ex_status = IDLE,
       current_syndrome_n_flag = PNone,
       syndrome_n_flag_1st_subround = PNone,
       syndrome_2nd_subround = PNone,
       qec_flag_base_ckt =
         \<lparr> num_data_qubits = k,
           num_anc_qubits = a,
           num_flag_qubits = f,
           error_scale_factor_two_qubit_gate = model_scale_factor_two_qubit_gate em,
           error_scale_factor_single_qubit_gate = 0,
           error_scale_factor_prep = model_scale_factor_prep_meas em,
           error_scale_factor_meas = model_scale_factor_prep_meas em,
           pauli_accumulator = replicate (2 * (k + a + f)) 0 \<rparr> \<rparr>"

text \<open>A statement on \<^verbatim>\<open>self.qec_flag_base_ckt\<close>.\<close>

definition on_ckt ::
  "(qec_flag_base_ckt_class rand \<Rightarrow> error + qec_flag_base_ckt_class rand) \<Rightarrow>
   five_qubit_code_flag_protocol rand \<Rightarrow> error + five_qubit_code_flag_protocol rand" where
  "on_ckt f = (\<lambda>(s, r).
     case f (qec_flag_base_ckt s, r) of
       Inl e \<Rightarrow> Inl e
     | Inr (c, r') \<Rightarrow> Inr (s\<lparr>qec_flag_base_ckt := c\<rparr>, r'))"

text \<open>A statement on the protocol object that draws nothing.\<close>

definition pure_step ::
  "(five_qubit_code_flag_protocol \<Rightarrow> error + five_qubit_code_flag_protocol) \<Rightarrow>
   five_qubit_code_flag_protocol rand \<Rightarrow> error + five_qubit_code_flag_protocol rand" where
  "pure_step f = (\<lambda>(s, r). case f s of Inl e \<Rightarrow> Inl e | Inr s' \<Rightarrow> Inr (s', r))"

text \<open>
  A two-qubit gate call of the protocol, such as
  \<^verbatim>\<open>self.qec_flag_base_ckt.xnot(self.qec_flag_base_ckt.data_qubits[0],
  self.qec_flag_base_ckt.anc_qubits[0], p_err, test_config, 1)\<close>, written
  \<open>gate_on xnot data_qubits 0 anc_qubits 0 p_err test_config 1\<close>: the two qubits are
  read from the lists of the circuit, which raises when a list is too short.
\<close>

definition gate_on ::
  "(nat \<Rightarrow> nat \<Rightarrow> real \<Rightarrow> error_spec option \<Rightarrow> int \<Rightarrow>
      qec_flag_base_ckt_class rand \<Rightarrow> error + qec_flag_base_ckt_class rand) \<Rightarrow>
   (qec_flag_base_ckt_class \<Rightarrow> nat list) \<Rightarrow> nat \<Rightarrow>
   (qec_flag_base_ckt_class \<Rightarrow> nat list) \<Rightarrow> nat \<Rightarrow>
   real \<Rightarrow> error_spec option \<Rightarrow> int \<Rightarrow>
   five_qubit_code_flag_protocol rand \<Rightarrow> error + five_qubit_code_flag_protocol rand" where
  "gate_on g qs1 i1 qs2 i2 p_err test_config loc =
     on_ckt (\<lambda>(c, r).
       case get_item (qs1 c) i1 of
         Inl e \<Rightarrow> Inl e
       | Inr q1 \<Rightarrow>
           (case get_item (qs2 c) i2 of
              Inl e \<Rightarrow> Inl e
            | Inr q2 \<Rightarrow> g q1 q2 p_err test_config loc (c, r)))"

definition init_state ::
  "real \<Rightarrow> five_qubit_code_flag_protocol rand \<Rightarrow> error + five_qubit_code_flag_protocol rand" where
  "init_state p_err = (\<lambda>(s, r).
     steps (map (\<lambda>i. on_ckt (prepare_Z_basis i p_err)) (anc_qubits (qec_flag_base_ckt s)) @
            map (\<lambda>i. on_ckt (prepare_X_basis i p_err)) (flag_qubits (qec_flag_base_ckt s))) (s, r))"

definition measure_ancilla_and_flag ::
  "bool \<Rightarrow> real \<Rightarrow> five_qubit_code_flag_protocol rand \<Rightarrow> error + five_qubit_code_flag_protocol rand" where
  "measure_ancilla_and_flag with_flag p_err = (\<lambda>(s, r).
     case get_item (anc_qubits (qec_flag_base_ckt s)) 0 of
       Inl e \<Rightarrow> Inl e
     | Inr anc \<Rightarrow>
         (case measure_Z_basis anc p_err (qec_flag_base_ckt s, r) of
            Inl e \<Rightarrow> Inl e
          | Inr (syndrome, (c1, r1)) \<Rightarrow>
              if with_flag then
                (case get_item (flag_qubits c1) 0 of
                   Inl e \<Rightarrow> Inl e
                 | Inr flg \<Rightarrow>
                     (case measure_X_basis flg p_err (c1, r1) of
                        Inl e \<Rightarrow> Inl e
                      | Inr (flag, (c2, r2)) \<Rightarrow>
                          Inr (s\<lparr>qec_flag_base_ckt := c2,
                                 current_syndrome_n_flag := Arr2 [(Some syndrome, Some flag)]\<rparr>, r2)))
              else
                Inr (s\<lparr>qec_flag_base_ckt := c1,
                       current_syndrome_n_flag := Arr1 [Some syndrome]\<rparr>, r1)))"

text \<open>
  \<^verbatim>\<open>update_syn_ex_status\<close> reads \<^verbatim>\<open>self.current_syndrome_n_flag[0][1]\<close> and then
  \<^verbatim>\<open>[0][0]\<close>: subscripting \<^verbatim>\<open>None\<close> raises TypeError, an empty array or string, the
  entry of a flat array of ints, or one character of a string IndexError, and the entry
  \<^verbatim>\<open>None\<close> of a flat array TypeError.
\<close>

definition update_syn_ex_status ::
  "five_qubit_code_flag_protocol \<Rightarrow> error + five_qubit_code_flag_protocol" where
  "update_syn_ex_status s =
     (case current_syndrome_n_flag s of
        PNone \<Rightarrow> Inl TypeError
      | PStr _ \<Rightarrow> Inl IndexError
      | Arr1 [] \<Rightarrow> Inl IndexError
      | Arr1 (None # _) \<Rightarrow> Inl TypeError
      | Arr1 (Some _ # _) \<Rightarrow> Inl IndexError
      | Arr2 [] \<Rightarrow> Inl IndexError
      | Arr2 ((syndrome, flag) # _) \<Rightarrow>
          Inr (if flag = Some 1 then s\<lparr>syndrome_ex_status := DET_RAISED_FLAG\<rparr>
               else if syndrome = Some 1 then s\<lparr>syndrome_ex_status := DET_NONZERO_SYNDROME\<rparr>
               else if flag = Some 0 \<and> syndrome = Some 0
                 then s\<lparr>syndrome_ex_status := DET_UNRAISED_FLAG_AND_ZERO_SYNDROME\<rparr>
               else s))"

text \<open>
  The numpy functions the protocol uses on these values.

  \<^verbatim>\<open>np.append(arr, values, axis=0)\<close> joins two arrays of the same number of dimensions
  and raises ValueError otherwise (\<^verbatim>\<open>None\<close> and a string are zero-dimensional).
  \<^verbatim>\<open>np.append(arr, values)\<close> flattens both operands first, \<^verbatim>\<open>None\<close> to the one entry
  \<^verbatim>\<open>None\<close>; a string operand, which would give an array of strings, is not modelled and
  reported as TypeError (the protocol never appends to a finished record).
\<close>

definition np_append_axis0 :: "pyval \<Rightarrow> pyval \<Rightarrow> error + pyval" where
  "np_append_axis0 arr vals =
     (case (arr, vals) of
        (Arr2 xs, Arr2 ys) \<Rightarrow> Inr (Arr2 (xs @ ys))
      | (Arr1 xs, Arr1 ys) \<Rightarrow> Inr (Arr1 (xs @ ys))
      | _ \<Rightarrow> Inl ValueError)"

definition ravel :: "pyval \<Rightarrow> error + int option list" where
  "ravel v =
     (case v of
        PNone \<Rightarrow> Inr [None]
      | Arr1 xs \<Rightarrow> Inr xs
      | Arr2 rows \<Rightarrow> Inr (concat (map (\<lambda>(a, b). [a, b]) rows))
      | PStr _ \<Rightarrow> Inl TypeError)"

definition np_append :: "pyval \<Rightarrow> pyval \<Rightarrow> error + pyval" where
  "np_append arr vals =
     (case ravel arr of
        Inl e \<Rightarrow> Inl e
      | Inr xs \<Rightarrow> (case ravel vals of Inl e \<Rightarrow> Inl e | Inr ys \<Rightarrow> Inr (Arr1 (xs @ ys))))"

text \<open>
  \<^verbatim>\<open>np.array2string\<close>: the entries of a row separated by one space, the rows of a
  two-dimensional array separated by a newline and a space, all in brackets; on a value
  that is no array it raises AttributeError.  The measured entries are the bits 0 and 1,
  printed as they are (the padding numpy gives to entries of different widths and the
  wrapping of long lines are not modelled).
\<close>

fun string_of_nat :: "nat \<Rightarrow> string" where
  "string_of_nat n =
     (if n < 10 then [''0123456789'' ! n]
      else string_of_nat (n div 10) @ [''0123456789'' ! (n mod 10)])"

definition str_int :: "int \<Rightarrow> string" where
  "str_int i = (if i < 0 then ''-'' @ string_of_nat (nat (- i)) else string_of_nat (nat i))"

definition str_entry :: "int option \<Rightarrow> string" where
  "str_entry x = (case x of None \<Rightarrow> ''None'' | Some i \<Rightarrow> str_int i)"

fun join :: "string \<Rightarrow> string list \<Rightarrow> string" where
  "join sep [] = []"
| "join sep [x] = x"
| "join sep (x # y # ys) = x @ sep @ join sep (y # ys)"

definition array2string :: "pyval \<Rightarrow> error + string" where
  "array2string v =
     (case v of
        Arr1 xs \<Rightarrow> Inr (''['' @ join '' '' (map str_entry xs) @ '']'')
      | Arr2 rows \<Rightarrow>
          Inr (''['' @
               join [CHR 0x0A, CHR '' '']
                 (map (\<lambda>(a, b). ''['' @ str_entry a @ '' '' @ str_entry b @ '']'') rows) @
               '']'')
      | _ \<Rightarrow> Inl AttributeError)"

text \<open>\<^verbatim>\<open>.replace('\n', '')\<close>\<close>

definition remove_newlines :: "string \<Rightarrow> string" where
  "remove_newlines str = filter (\<lambda>ch. ch \<noteq> CHR 0x0A) str"

text \<open>
  The statements that finish the two records:
  \<^verbatim>\<open>self.syndrome_n_flag_1st_subround = np.array2string(...).replace('\n', '')\<close> and
  \<^verbatim>\<open>self.syndrome_2nd_subround = np.array2string(self.syndrome_2nd_subround)\<close>.
\<close>

definition finish_1st_subround ::
  "five_qubit_code_flag_protocol \<Rightarrow> error + five_qubit_code_flag_protocol" where
  "finish_1st_subround s =
     (case array2string (syndrome_n_flag_1st_subround s) of
        Inl e \<Rightarrow> Inl e
      | Inr str \<Rightarrow> Inr (s\<lparr>syndrome_n_flag_1st_subround := PStr (remove_newlines str)\<rparr>))"

definition finish_2nd_subround ::
  "five_qubit_code_flag_protocol \<Rightarrow> error + five_qubit_code_flag_protocol" where
  "finish_2nd_subround s =
     (case array2string (syndrome_2nd_subround s) of
        Inl e \<Rightarrow> Inl e
      | Inr str \<Rightarrow> Inr (s\<lparr>syndrome_2nd_subround := PStr str\<rparr>))"

text \<open>
  \<^verbatim>\<open>self.syndrome_n_flag_1st_subround = np.append(self.syndrome_n_flag_1st_subround, v, axis=0)\<close>
  and \<^verbatim>\<open>self.syndrome_2nd_subround = np.append(self.syndrome_2nd_subround, self.current_syndrome_n_flag)\<close>.
\<close>

definition append_1st_subround ::
  "pyval \<Rightarrow> five_qubit_code_flag_protocol \<Rightarrow> error + five_qubit_code_flag_protocol" where
  "append_1st_subround v s =
     (case np_append_axis0 (syndrome_n_flag_1st_subround s) v of
        Inl e \<Rightarrow> Inl e
      | Inr arr \<Rightarrow> Inr (s\<lparr>syndrome_n_flag_1st_subround := arr\<rparr>))"

definition append_2nd_subround ::
  "five_qubit_code_flag_protocol \<Rightarrow> error + five_qubit_code_flag_protocol" where
  "append_2nd_subround s =
     (case np_append (syndrome_2nd_subround s) (current_syndrome_n_flag s) of
        Inl e \<Rightarrow> Inl e
      | Inr arr \<Rightarrow> Inr (s\<lparr>syndrome_2nd_subround := arr\<rparr>))"

definition set_status ::
  "syn_ex_status \<Rightarrow> five_qubit_code_flag_protocol \<Rightarrow> error + five_qubit_code_flag_protocol" where
  "set_status st s = Inr (s\<lparr>syndrome_ex_status := st\<rparr>)"

text \<open>
  The code-capacity noise before a generator:
  \<^verbatim>\<open>if self.error_model == error_model_enum.CODE_CAPACITY_NOISE: ...\<close>; before the first
  flagged generator the test also admits \<^verbatim>\<open>ONE_STOCHASTIC_PAULI_ERROR\<close>.
\<close>

definition code_capacity_noise ::
  "real \<Rightarrow> five_qubit_code_flag_protocol rand \<Rightarrow> error + five_qubit_code_flag_protocol rand" where
  "code_capacity_noise p_err = (\<lambda>(s, r).
     if error_model s = CODE_CAPACITY_NOISE
     then on_ckt (one_stochastic_pauli_error_data_qubits p_err) (s, r)
     else Inr (s, r))"

definition first_generator_noise ::
  "real \<Rightarrow> five_qubit_code_flag_protocol rand \<Rightarrow> error + five_qubit_code_flag_protocol rand" where
  "first_generator_noise p_err = (\<lambda>(s, r).
     if error_model s = ONE_STOCHASTIC_PAULI_ERROR \<or> error_model s = CODE_CAPACITY_NOISE
     then on_ckt (one_stochastic_pauli_error_data_qubits p_err) (s, r)
     else Inr (s, r))"

text \<open>The four gates of each generator in \<^verbatim>\<open>measure_full_syndrome_without_flags\<close>.\<close>

definition unflagged_circuit_1 ::
  "real \<Rightarrow> error_spec option \<Rightarrow>
   (five_qubit_code_flag_protocol rand \<Rightarrow> error + five_qubit_code_flag_protocol rand) list" where
  "unflagged_circuit_1 p_err test_config =
     [gate_on xnot data_qubits 0 anc_qubits 0 p_err test_config 100,
      gate_on cnot data_qubits 1 anc_qubits 0 p_err test_config 101,
      gate_on cnot data_qubits 2 anc_qubits 0 p_err test_config 102,
      gate_on xnot data_qubits 3 anc_qubits 0 p_err test_config 103]"

definition unflagged_circuit_2 ::
  "real \<Rightarrow> error_spec option \<Rightarrow>
   (five_qubit_code_flag_protocol rand \<Rightarrow> error + five_qubit_code_flag_protocol rand) list" where
  "unflagged_circuit_2 p_err test_config =
     [gate_on xnot data_qubits 1 anc_qubits 0 p_err test_config 104,
      gate_on cnot data_qubits 2 anc_qubits 0 p_err test_config 105,
      gate_on cnot data_qubits 3 anc_qubits 0 p_err test_config 106,
      gate_on xnot data_qubits 4 anc_qubits 0 p_err test_config 107]"

definition unflagged_circuit_3 ::
  "real \<Rightarrow> error_spec option \<Rightarrow>
   (five_qubit_code_flag_protocol rand \<Rightarrow> error + five_qubit_code_flag_protocol rand) list" where
  "unflagged_circuit_3 p_err test_config =
     [gate_on xnot data_qubits 0 anc_qubits 0 p_err test_config 108,
      gate_on xnot data_qubits 2 anc_qubits 0 p_err test_config 109,
      gate_on cnot data_qubits 3 anc_qubits 0 p_err test_config 110,
      gate_on cnot data_qubits 4 anc_qubits 0 p_err test_config 111]"

definition unflagged_circuit_4 ::
  "real \<Rightarrow> error_spec option \<Rightarrow>
   (five_qubit_code_flag_protocol rand \<Rightarrow> error + five_qubit_code_flag_protocol rand) list" where
  "unflagged_circuit_4 p_err test_config =
     [gate_on cnot data_qubits 0 anc_qubits 0 p_err test_config 112,
      gate_on xnot data_qubits 1 anc_qubits 0 p_err test_config 113,
      gate_on xnot data_qubits 3 anc_qubits 0 p_err test_config 114,
      gate_on cnot data_qubits 4 anc_qubits 0 p_err test_config 115]"

definition measure_full_syndrome_without_flags ::
  "error_spec option \<Rightarrow> real \<Rightarrow>
   five_qubit_code_flag_protocol rand \<Rightarrow> error + five_qubit_code_flag_protocol rand" where
  "measure_full_syndrome_without_flags test_config p_err = (\<lambda>(s, r).
     if syndrome_ex_status s \<noteq> MEAS_GEN_WITHOUT_FLAG then Inl AssertionError
     else
       steps
         ([code_capacity_noise p_err] @ unflagged_circuit_1 p_err test_config @
          [measure_ancilla_and_flag False p_err,
           pure_step (\<lambda>s. Inr (s\<lparr>syndrome_2nd_subround := current_syndrome_n_flag s\<rparr>)),
           on_ckt (reset_ancilla p_err)] @
          [code_capacity_noise p_err] @ unflagged_circuit_2 p_err test_config @
          [measure_ancilla_and_flag False p_err,
           pure_step append_2nd_subround,
           on_ckt (reset_ancilla p_err)] @
          [code_capacity_noise p_err] @ unflagged_circuit_3 p_err test_config @
          [measure_ancilla_and_flag False p_err,
           pure_step append_2nd_subround,
           on_ckt (reset_ancilla p_err)] @
          [code_capacity_noise p_err] @ unflagged_circuit_4 p_err test_config @
          [measure_ancilla_and_flag False p_err,
           pure_step append_2nd_subround,
           on_ckt (reset_ancilla p_err)])
         (s, r))"

text \<open>The six gates of each generator measured with the flag in \<^verbatim>\<open>syndrome_extraction\<close>.\<close>

definition flagged_circuit_1 ::
  "real \<Rightarrow> error_spec option \<Rightarrow>
   (five_qubit_code_flag_protocol rand \<Rightarrow> error + five_qubit_code_flag_protocol rand) list" where
  "flagged_circuit_1 p_err test_config =
     [gate_on xnot data_qubits 0 anc_qubits 0 p_err test_config 1,
      gate_on cnot flag_qubits 0 anc_qubits 0 p_err test_config 2,
      gate_on cnot data_qubits 1 anc_qubits 0 p_err test_config 3,
      gate_on cnot data_qubits 2 anc_qubits 0 p_err test_config 4,
      gate_on cnot flag_qubits 0 anc_qubits 0 p_err test_config 5,
      gate_on xnot data_qubits 3 anc_qubits 0 p_err test_config 6]"

definition flagged_circuit_2 ::
  "real \<Rightarrow> error_spec option \<Rightarrow>
   (five_qubit_code_flag_protocol rand \<Rightarrow> error + five_qubit_code_flag_protocol rand) list" where
  "flagged_circuit_2 p_err test_config =
     [gate_on xnot data_qubits 1 anc_qubits 0 p_err test_config 7,
      gate_on cnot flag_qubits 0 anc_qubits 0 p_err test_config 8,
      gate_on cnot data_qubits 2 anc_qubits 0 p_err test_config 9,
      gate_on cnot data_qubits 3 anc_qubits 0 p_err test_config 10,
      gate_on cnot flag_qubits 0 anc_qubits 0 p_err test_config 11,
      gate_on xnot data_qubits 4 anc_qubits 0 p_err test_config 12]"

definition flagged_circuit_3 ::
  "real \<Rightarrow> error_spec option \<Rightarrow>
   (five_qubit_code_flag_protocol rand \<Rightarrow> error + five_qubit_code_flag_protocol rand) list" where
  "flagged_circuit_3 p_err test_config =
     [gate_on xnot data_qubits 0 anc_qubits 0 p_err test_config 13,
      gate_on cnot flag_qubits 0 anc_qubits 0 p_err test_config 14,
      gate_on xnot data_qubits 2 anc_qubits 0 p_err test_config 15,
      gate_on cnot data_qubits 3 anc_qubits 0 p_err test_config 16,
      gate_on cnot flag_qubits 0 anc_qubits 0 p_err test_config 17,
      gate_on cnot data_qubits 4 anc_qubits 0 p_err test_config 18]"

definition flagged_circuit_4 ::
  "real \<Rightarrow> error_spec option \<Rightarrow>
   (five_qubit_code_flag_protocol rand \<Rightarrow> error + five_qubit_code_flag_protocol rand) list" where
  "flagged_circuit_4 p_err test_config =
     [gate_on cnot data_qubits 0 anc_qubits 0 p_err test_config 19,
      gate_on cnot flag_qubits 0 anc_qubits 0 p_err test_config 20,
      gate_on xnot data_qubits 1 anc_qubits 0 p_err test_config 21,
      gate_on xnot data_qubits 3 anc_qubits 0 p_err test_config 22,
      gate_on cnot flag_qubits 0 anc_qubits 0 p_err test_config 23,
      gate_on cnot data_qubits 4 anc_qubits 0 p_err test_config 24]"

text \<open>
  \<^verbatim>\<open>syndrome_extraction\<close>.  The measurement of one generator with the flag: the noise
  of the error model, the six gates, the measurement of ancilla and flag, the entry in
  the record of the 1st subround, the two resets.  The first generator assigns the
  record; the others, under the test \<^verbatim>\<open>if(self.syndrome_ex_status == MEAS_GEN_WITH_FLAG)\<close>,
  append to it.
\<close>

definition flagged_generator_1 ::
  "real \<Rightarrow> error_spec option \<Rightarrow>
   five_qubit_code_flag_protocol rand \<Rightarrow> error + five_qubit_code_flag_protocol rand" where
  "flagged_generator_1 p_err test_config =
     steps ([first_generator_noise p_err] @ flagged_circuit_1 p_err test_config @
            [measure_ancilla_and_flag True p_err,
             pure_step (\<lambda>s. Inr (s\<lparr>syndrome_n_flag_1st_subround := current_syndrome_n_flag s\<rparr>)),
             on_ckt (reset_ancilla p_err),
             on_ckt (reset_flag p_err)])"

definition flagged_generator ::
  "(five_qubit_code_flag_protocol rand \<Rightarrow> error + five_qubit_code_flag_protocol rand) list \<Rightarrow>
   real \<Rightarrow> five_qubit_code_flag_protocol rand \<Rightarrow> error + five_qubit_code_flag_protocol rand" where
  "flagged_generator circuit p_err = (\<lambda>(s, r).
     if syndrome_ex_status s = MEAS_GEN_WITH_FLAG then
       steps ([code_capacity_noise p_err] @ circuit @
              [measure_ancilla_and_flag True p_err,
               pure_step (\<lambda>s. append_1st_subround (current_syndrome_n_flag s) s),
               on_ckt (reset_ancilla p_err),
               on_ckt (reset_flag p_err)]) (s, r)
     else Inr (s, r))"

definition flagged_generator_2 ::
  "real \<Rightarrow> error_spec option \<Rightarrow>
   five_qubit_code_flag_protocol rand \<Rightarrow> error + five_qubit_code_flag_protocol rand" where
  "flagged_generator_2 p_err test_config = flagged_generator (flagged_circuit_2 p_err test_config) p_err"

definition flagged_generator_3 ::
  "real \<Rightarrow> error_spec option \<Rightarrow>
   five_qubit_code_flag_protocol rand \<Rightarrow> error + five_qubit_code_flag_protocol rand" where
  "flagged_generator_3 p_err test_config = flagged_generator (flagged_circuit_3 p_err test_config) p_err"

definition flagged_generator_4 ::
  "real \<Rightarrow> error_spec option \<Rightarrow>
   five_qubit_code_flag_protocol rand \<Rightarrow> error + five_qubit_code_flag_protocol rand" where
  "flagged_generator_4 p_err test_config = flagged_generator (flagged_circuit_4 p_err test_config) p_err"

text \<open>
  The branch taken on a raised flag or a nonzero syndrome: the sentinel rows (none after
  the fourth generator), the pass without flags, and the return with status \<^verbatim>\<open>IDLE\<close>
  and both records finished.
\<close>

definition remeasure ::
  "nat \<Rightarrow> real \<Rightarrow> error_spec option \<Rightarrow>
   five_qubit_code_flag_protocol rand \<Rightarrow> error + five_qubit_code_flag_protocol rand" where
  "remeasure sentinels p_err test_config =
     steps ((if sentinels = 0 then []
             else [pure_step (append_1st_subround (Arr2 (replicate sentinels (None, None))))]) @
            [pure_step (set_status MEAS_GEN_WITHOUT_FLAG),
             measure_full_syndrome_without_flags test_config p_err,
             pure_step (set_status IDLE),
             pure_step finish_1st_subround,
             pure_step finish_2nd_subround])"

text \<open>
  The \<^verbatim>\<open>if / elif / else: assert False\<close> after the first three generators: \<open>detected\<close>
  is the branch above, \<open>continue\<close> the rest of the function.
\<close>

definition decide ::
  "(five_qubit_code_flag_protocol rand \<Rightarrow> error + five_qubit_code_flag_protocol rand) \<Rightarrow>
   (five_qubit_code_flag_protocol rand \<Rightarrow> error + five_qubit_code_flag_protocol rand) \<Rightarrow>
   five_qubit_code_flag_protocol rand \<Rightarrow> error + five_qubit_code_flag_protocol rand" where
  "decide detected continue = (\<lambda>(s, r).
     if syndrome_ex_status s = DET_RAISED_FLAG \<or> syndrome_ex_status s = DET_NONZERO_SYNDROME
     then detected (s, r)
     else if syndrome_ex_status s = DET_UNRAISED_FLAG_AND_ZERO_SYNDROME
     then continue (s\<lparr>syndrome_ex_status := MEAS_GEN_WITH_FLAG\<rparr>, r)
     else Inl AssertionError)"

text \<open>
  After the fourth generator there is no \<^verbatim>\<open>elif\<close>: without a detection the function
  sets the status \<^verbatim>\<open>IDLE\<close>, finishes the 1st record and, if the 2nd is not \<^verbatim>\<open>None\<close>,
  the 2nd.
\<close>

definition last_decision ::
  "real \<Rightarrow> error_spec option \<Rightarrow>
   five_qubit_code_flag_protocol rand \<Rightarrow> error + five_qubit_code_flag_protocol rand" where
  "last_decision p_err test_config = (\<lambda>(s, r).
     if syndrome_ex_status s = DET_RAISED_FLAG \<or> syndrome_ex_status s = DET_NONZERO_SYNDROME
     then remeasure 0 p_err test_config (s, r)
     else
       steps [pure_step (set_status IDLE),
              pure_step finish_1st_subround,
              pure_step (\<lambda>s. if syndrome_2nd_subround s \<noteq> PNone then finish_2nd_subround s
                              else Inr s)] (s, r))"

definition from_generator_4 ::
  "real \<Rightarrow> error_spec option \<Rightarrow>
   five_qubit_code_flag_protocol rand \<Rightarrow> error + five_qubit_code_flag_protocol rand" where
  "from_generator_4 p_err test_config =
     steps [flagged_generator_4 p_err test_config,
            pure_step update_syn_ex_status,
            last_decision p_err test_config]"

definition from_generator_3 ::
  "real \<Rightarrow> error_spec option \<Rightarrow>
   five_qubit_code_flag_protocol rand \<Rightarrow> error + five_qubit_code_flag_protocol rand" where
  "from_generator_3 p_err test_config =
     steps [flagged_generator_3 p_err test_config,
            pure_step update_syn_ex_status,
            decide (remeasure 1 p_err test_config) (from_generator_4 p_err test_config)]"

definition from_generator_2 ::
  "real \<Rightarrow> error_spec option \<Rightarrow>
   five_qubit_code_flag_protocol rand \<Rightarrow> error + five_qubit_code_flag_protocol rand" where
  "from_generator_2 p_err test_config =
     steps [flagged_generator_2 p_err test_config,
            pure_step update_syn_ex_status,
            decide (remeasure 2 p_err test_config) (from_generator_3 p_err test_config)]"

text \<open>
  The state in which the first generator is measured: the three records reset and the
  status \<^verbatim>\<open>MEAS_GEN_WITH_FLAG\<close>.
\<close>

definition enter_extraction :: "five_qubit_code_flag_protocol \<Rightarrow> five_qubit_code_flag_protocol" where
  "enter_extraction s =
     s\<lparr>syndrome_n_flag_1st_subround := PNone,
       syndrome_2nd_subround := PNone,
       current_syndrome_n_flag := PNone,
       syndrome_ex_status := MEAS_GEN_WITH_FLAG\<rparr>"

text \<open>
  An override directed at location 0 makes the function call
  \<^verbatim>\<open>self.two_qubit_pauli_error(...)\<close>; the protocol classes have no method of that name
  (it is a method of the circuit), so the call raises AttributeError.
\<close>

definition directed_at_0 :: "error_spec option \<Rightarrow> bool" where
  "directed_at_0 test_config =
     (case test_config of None \<Rightarrow> False | Some tc \<Rightarrow> inject_error tc \<and> error_loc tc = Some 0)"

definition syndrome_extraction ::
  "error_spec option \<Rightarrow> real \<Rightarrow>
   five_qubit_code_flag_protocol rand \<Rightarrow> error + five_qubit_code_flag_protocol rand" where
  "syndrome_extraction test_config p_err = (\<lambda>(s, r).
     if syndrome_ex_status s \<noteq> IDLE then Inl AssertionError
     else if directed_at_0 test_config then Inl AttributeError
     else
       steps [flagged_generator_1 p_err test_config,
              pure_step update_syn_ex_status,
              decide (remeasure 3 p_err test_config) (from_generator_2 p_err test_config)]
         (enter_extraction s, r))"

text \<open>
  \<^verbatim>\<open>syndrome_decoding\<close>.  \<^verbatim>\<open>key in d\<close> for a dictionary with string keys: \<^verbatim>\<open>None\<close> is
  no key, a string is looked up, an array is unhashable (TypeError).  The result is the
  value found, if any.
\<close>

definition dict_find :: "pyval \<Rightarrow> (string \<rightharpoonup> 'v) \<Rightarrow> error + 'v option" where
  "dict_find key d =
     (case key of
        PNone \<Rightarrow> Inr None
      | PStr k \<Rightarrow> Inr (d k)
      | _ \<Rightarrow> Inl TypeError)"

text \<open>
  The correction with zeros for the ancilla and flag qubits,
  \<^verbatim>\<open>np.concatenate((correction[0:k], [0]*(a+f), correction[k:2*k], [0]*(a+f)))\<close>.
\<close>

definition extend_correction :: "nat \<Rightarrow> nat \<Rightarrow> int list \<Rightarrow> int list" where
  "extend_correction k af correction =
     take k correction @ replicate af 0 @ take k (drop k correction) @ replicate af 0"

definition apply_correction ::
  "int list \<Rightarrow> five_qubit_code_flag_protocol \<Rightarrow> error + five_qubit_code_flag_protocol" where
  "apply_correction correction s =
     (case xor_accumulator
             (extend_correction (stab_num_data_qubits s)
                (stab_num_anc_qubits s + stab_num_flag_qubits s) correction)
             (qec_flag_base_ckt s) of
        Inl e \<Rightarrow> Inl e
      | Inr c \<Rightarrow> Inr (s\<lparr>qec_flag_base_ckt := c\<rparr>))"

text \<open>
  Where the outer value is a correction (an array of ints) and not a dictionary, the
  test \<^verbatim>\<open>self.syndrome_2nd_subround in ...\<close> is numpy's membership: no element of the
  array equals \<^verbatim>\<open>None\<close> or a string, so the test is false.  (A record that is still an
  array is met only inside \<^verbatim>\<open>syndrome_extraction\<close>; the model reports it as TypeError
  here as for a dictionary.)
\<close>

definition syndrome_decoding ::
  "five_qubit_code_flag_protocol \<Rightarrow> error + five_qubit_code_flag_protocol" where
  "syndrome_decoding s =
     (case dict_find (syndrome_n_flag_1st_subround s) (syndrome_lookup_table s) of
        Inl e \<Rightarrow> Inl e
      | Inr None \<Rightarrow> Inr s
      | Inr (Some (Inner d)) \<Rightarrow>
          (case dict_find (syndrome_2nd_subround s) d of
             Inl e \<Rightarrow> Inl e
           | Inr None \<Rightarrow> Inr s
           | Inr (Some correction) \<Rightarrow> apply_correction correction s)
      | Inr (Some (Terminal arr)) \<Rightarrow>
          (case syndrome_2nd_subround s of
             PNone \<Rightarrow> Inr s
           | PStr _ \<Rightarrow> Inr s
           | _ \<Rightarrow> Inl TypeError))"

text \<open>
  \<^verbatim>\<open>logical_error_tracking\<close>.  The commutation of the data-qubit part \<open>v\<close> of the
  accumulator with each row of \<^verbatim>\<open>logical_ops\<close>,
  \<^verbatim>\<open>np.matmul(v, np.matmul(L, np.transpose(self.logical_ops))) % 2\<close>, where \<open>L\<close> exchanges
  the two halves of a row.  \<^verbatim>\<open>logical_ops\<close> is a matrix with at least one row; the
  products raise ValueError when a row or \<open>v\<close> does not have \<open>2 * n\<close> entries.
\<close>

definition commutation :: "nat \<Rightarrow> int list \<Rightarrow> int list list \<Rightarrow> error + int list" where
  "commutation n v ops =
     (if ops = [] then Inl ValueError
      else if list_ex (\<lambda>row. length row \<noteq> 2 * n) ops then Inl ValueError
      else if length v \<noteq> 2 * n then Inl ValueError
      else Inr (map (\<lambda>row. sum_list (map2 (*) v (drop n row @ take n row)) mod 2) ops))"

text \<open>\<^verbatim>\<open>self.logical_error_counts[j] += 1\<close>\<close>

definition count_logical_error ::
  "nat \<Rightarrow> five_qubit_code_flag_protocol \<Rightarrow> error + five_qubit_code_flag_protocol" where
  "count_logical_error j s =
     (case get_item (logical_error_counts s) j of
        Inl e \<Rightarrow> Inl e
      | Inr None \<Rightarrow> Inl TypeError
      | Inr (Some n) \<Rightarrow> Inr (s\<lparr>logical_error_counts := (logical_error_counts s)[j := Some (n + 1)]\<rparr>))"

text \<open>The extra cycle: \<^verbatim>\<open>self.syndrome_extraction(test_config=None, p_err=-1)\<close> and
  \<^verbatim>\<open>self.syndrome_decoding()\<close>.\<close>

definition resynchronization ::
  "five_qubit_code_flag_protocol rand \<Rightarrow> error + five_qubit_code_flag_protocol rand" where
  "resynchronization = steps [syndrome_extraction None (- 1), pure_step syndrome_decoding]"

definition logical_error_tracking ::
  "nat \<Rightarrow> five_qubit_code_flag_protocol rand \<Rightarrow> error + five_qubit_code_flag_protocol rand" where
  "logical_error_tracking j = (\<lambda>(s, r).
     let pauli_accumulator_before_noiseless_qec = pauli_accumulator (qec_flag_base_ckt s) in
     case resynchronization (s, r) of
       Inl e \<Rightarrow> Inl e
     | Inr (s', r') \<Rightarrow>
         let acc = pauli_accumulator (qec_flag_base_ckt s');
             pauli_accumulator_data_qubits =
               take (stab_num_data_qubits s') acc @
               take (stab_num_data_qubits s') (drop (stab_num_all_qubits s') acc)
         in case commutation (stab_num_data_qubits s') pauli_accumulator_data_qubits
                   (logical_ops s') of
              Inl e \<Rightarrow> Inl e
            | Inr comm \<Rightarrow>
                if list_ex (\<lambda>x. x \<noteq> 0) comm then
                  (case count_logical_error j s' of
                     Inl e \<Rightarrow> Inl e
                   | Inr s'' \<Rightarrow> Inr (create_circuit s'', r'))
                else
                  Inr (s'\<lparr>qec_flag_base_ckt :=
                            (qec_flag_base_ckt s')
                              \<lparr>pauli_accumulator := pauli_accumulator_before_noiseless_qec\<rparr>\<rparr>, r'))"

definition cleanup :: "five_qubit_code_flag_protocol \<Rightarrow> five_qubit_code_flag_protocol" where
  "cleanup s =
     s\<lparr>syndrome_ex_status := IDLE,
       current_syndrome_n_flag := PNone,
       syndrome_n_flag_1st_subround := PNone,
       syndrome_2nd_subround := PNone\<rparr>"

text \<open>
  The lookup tables of \<^verbatim>\<open>five_qubit_code_flag_protocol_stabilizer.py\<close>: the table
  without flags (the weight-1 corrections) and the table of the flag protocol with
  minimum-weight corrections, the default of the constructor.  A correction is the
  symplectic vector over the five data qubits.
\<close>

definition five_qubit_code_no_flag_LUT :: "string \<rightharpoonup> int list" where
  "five_qubit_code_no_flag_LUT =
     map_of
       [(''[0 0 0 1]'', [1, 0, 0, 0, 0, 0, 0, 0, 0, 0]),
        (''[1 0 0 0]'', [0, 1, 0, 0, 0, 0, 0, 0, 0, 0]),
        (''[1 1 0 0]'', [0, 0, 1, 0, 0, 0, 0, 0, 0, 0]),
        (''[0 1 1 0]'', [0, 0, 0, 1, 0, 0, 0, 0, 0, 0]),
        (''[0 0 1 1]'', [0, 0, 0, 0, 1, 0, 0, 0, 0, 0]),
        (''[1 0 1 0]'', [0, 0, 0, 0, 0, 1, 0, 0, 0, 0]),
        (''[0 1 0 1]'', [0, 0, 0, 0, 0, 0, 1, 0, 0, 0]),
        (''[0 0 1 0]'', [0, 0, 0, 0, 0, 0, 0, 1, 0, 0]),
        (''[1 0 0 1]'', [0, 0, 0, 0, 0, 0, 0, 0, 1, 0]),
        (''[0 1 0 0]'', [0, 0, 0, 0, 0, 0, 0, 0, 0, 1]),
        (''[1 0 1 1]'', [1, 0, 0, 0, 0, 1, 0, 0, 0, 0]),
        (''[1 1 0 1]'', [0, 1, 0, 0, 0, 0, 1, 0, 0, 0]),
        (''[1 1 1 0]'', [0, 0, 1, 0, 0, 0, 0, 1, 0, 0]),
        (''[1 1 1 1]'', [0, 0, 0, 1, 0, 0, 0, 0, 1, 0]),
        (''[0 1 1 1]'', [0, 0, 0, 0, 1, 0, 0, 0, 0, 1])]"

definition five_qubit_code_flag_min_wt_LUT :: "string \<rightharpoonup> lut_entry" where
  "five_qubit_code_flag_min_wt_LUT =
     map_of
       [(''[[0 1] [None None] [None None] [None None]]'',
         Inner (map_of
             [(''[0 1 0 0]'', [0, 0, 0, 1, 0, 0, 0, 1, 0, 0]),
              (''[1 1 0 0]'', [1, 1, 0, 0, 0, 0, 1, 0, 0, 0]),
              (''[1 0 0 1]'', [1, 1, 0, 0, 0, 0, 0, 0, 0, 0]),
              (''[0 0 0 1]'', [1, 0, 0, 0, 0, 0, 0, 0, 0, 0]),
              (''[0 1 1 0]'', [0, 0, 0, 1, 0, 0, 0, 0, 0, 0]),
              (''[1 0 1 0]'', [0, 0, 1, 1, 0, 0, 0, 0, 0, 0]),
              (''[1 0 0 0]'', [0, 0, 1, 1, 0, 0, 0, 1, 0, 0])])),
        (''[[1 1] [None None] [None None] [None None]]'',
         Inner (map_of
             [(''[0 1 0 0]'', [0, 0, 0, 1, 0, 0, 0, 1, 0, 0]),
              (''[1 1 0 0]'', [1, 1, 0, 0, 0, 0, 1, 0, 0, 0]),
              (''[1 0 0 1]'', [1, 1, 0, 0, 0, 0, 0, 0, 0, 0]),
              (''[0 0 0 1]'', [1, 0, 0, 0, 0, 0, 0, 0, 0, 0]),
              (''[0 1 1 0]'', [0, 0, 0, 1, 0, 0, 0, 0, 0, 0]),
              (''[1 0 1 0]'', [0, 0, 1, 1, 0, 0, 0, 0, 0, 0]),
              (''[1 0 0 0]'', [0, 0, 1, 1, 0, 0, 0, 1, 0, 0])])),
        (''[[1 0] [None None] [None None] [None None]]'',
         Inner five_qubit_code_no_flag_LUT),
        (''[[0 0] [0 1] [None None] [None None]]'',
         Inner (map_of
             [(''[1 0 1 0]'', [0, 0, 0, 0, 1, 0, 0, 0, 1, 0]),
              (''[0 1 1 0]'', [1, 0, 0, 0, 1, 0, 0, 0, 0, 1]),
              (''[0 1 0 0]'', [0, 1, 1, 0, 0, 0, 0, 0, 0, 0]),
              (''[1 0 0 0]'', [0, 1, 0, 0, 0, 0, 0, 0, 0, 0]),
              (''[0 0 1 1]'', [0, 0, 0, 0, 1, 0, 0, 0, 0, 0]),
              (''[0 1 0 1]'', [0, 0, 0, 1, 1, 0, 0, 0, 0, 0]),
              (''[1 1 0 0]'', [0, 0, 0, 1, 1, 0, 0, 0, 1, 0])])),
        (''[[0 0] [1 1] [None None] [None None]]'',
         Inner (map_of
             [(''[1 0 1 0]'', [0, 0, 0, 0, 1, 0, 0, 0, 1, 0]),
              (''[0 1 1 0]'', [1, 0, 0, 0, 1, 0, 0, 0, 0, 1]),
              (''[0 1 0 0]'', [0, 1, 1, 0, 0, 0, 0, 0, 0, 0]),
              (''[1 0 0 0]'', [0, 1, 0, 0, 0, 0, 0, 0, 0, 0]),
              (''[0 0 1 1]'', [0, 0, 0, 0, 1, 0, 0, 0, 0, 0]),
              (''[0 1 0 1]'', [0, 0, 0, 1, 1, 0, 0, 0, 0, 0]),
              (''[1 1 0 0]'', [0, 0, 0, 1, 1, 0, 0, 0, 1, 0])])),
        (''[[0 0] [1 0] [None None] [None None]]'',
         Inner five_qubit_code_no_flag_LUT),
        (''[[0 0] [0 0] [0 1] [None None]]'',
         Inner (map_of
             [(''[1 1 0 1]'', [0, 0, 0, 0, 0, 0, 0, 0, 1, 1]),
              (''[0 0 0 1]'', [1, 0, 0, 0, 0, 0, 0, 0, 0, 0]),
              (''[0 0 1 1]'', [1, 0, 0, 0, 0, 0, 0, 1, 0, 0]),
              (''[1 1 1 1]'', [0, 1, 0, 0, 1, 0, 0, 0, 0, 1]),
              (''[0 1 0 0]'', [0, 0, 0, 0, 0, 0, 0, 0, 0, 1]),
              (''[0 0 1 0]'', [0, 0, 0, 1, 0, 0, 0, 0, 0, 1]),
              (''[1 0 1 1]'', [0, 0, 0, 1, 0, 0, 0, 0, 1, 1])])),
        (''[[0 0] [0 0] [1 1] [None None]]'',
         Inner (map_of
             [(''[1 1 0 1]'', [0, 0, 0, 0, 0, 0, 0, 0, 1, 1]),
              (''[0 0 0 1]'', [1, 0, 0, 0, 0, 0, 0, 0, 0, 0]),
              (''[0 0 1 1]'', [1, 0, 0, 0, 0, 0, 0, 1, 0, 0]),
              (''[1 1 1 1]'', [0, 1, 0, 0, 1, 0, 0, 0, 0, 1]),
              (''[0 1 0 0]'', [0, 0, 0, 0, 0, 0, 0, 0, 0, 1]),
              (''[0 0 1 0]'', [0, 0, 0, 1, 0, 0, 0, 0, 0, 1]),
              (''[1 0 1 1]'', [0, 0, 0, 1, 0, 0, 0, 0, 1, 1])])),
        (''[[0 0] [0 0] [1 0] [None None]]'',
         Inner five_qubit_code_no_flag_LUT),
        (''[[0 0] [0 0] [0 0] [0 1]]'',
         Inner (map_of
             [(''[0 0 1 0]'', [0, 0, 0, 1, 0, 0, 0, 0, 0, 1]),
              (''[1 0 1 0]'', [0, 0, 0, 0, 0, 1, 0, 0, 0, 0]),
              (''[1 1 1 1]'', [0, 0, 0, 0, 0, 1, 1, 0, 0, 0]),
              (''[0 1 1 1]'', [0, 1, 0, 0, 0, 1, 1, 0, 0, 0]),
              (''[0 1 0 0]'', [0, 0, 0, 0, 0, 0, 0, 0, 0, 1]),
              (''[1 0 1 1]'', [0, 0, 0, 1, 0, 0, 0, 0, 0, 1]),
              (''[1 1 0 1]'', [0, 0, 0, 0, 0, 0, 0, 0, 1, 1])])),
        (''[[0 0] [0 0] [0 0] [1 1]]'',
         Inner (map_of
             [(''[0 0 1 0]'', [0, 0, 0, 1, 0, 0, 0, 0, 0, 1]),
              (''[1 0 1 0]'', [0, 0, 0, 0, 0, 1, 0, 0, 0, 0]),
              (''[1 1 1 1]'', [0, 0, 0, 0, 0, 1, 1, 0, 0, 0]),
              (''[0 1 1 1]'', [0, 1, 0, 0, 0, 1, 1, 0, 0, 0]),
              (''[0 1 0 0]'', [0, 0, 0, 0, 0, 0, 0, 0, 0, 1]),
              (''[1 0 1 1]'', [0, 0, 0, 1, 0, 0, 0, 0, 0, 1]),
              (''[1 1 0 1]'', [0, 0, 0, 0, 0, 0, 0, 0, 1, 1])])),
        (''[[0 0] [0 0] [0 0] [1 0]]'',
         Inner five_qubit_code_no_flag_LUT)]"

text \<open>The default \<^verbatim>\<open>logical_ops\<close> of the constructor: logical X and logical Z.\<close>

definition five_qubit_logical_ops :: "int list list" where
  "five_qubit_logical_ops = [[1, 1, 1, 1, 1, 0, 0, 0, 0, 0], [0, 0, 0, 0, 0, 1, 1, 1, 1, 1]]"

section \<open>Well-formed circuits and error strings\<close>

text \<open>
  The accumulator of a circuit built by the constructor is a vector of \<open>2 * N\<close> bits, and
  every operation keeps it so.
\<close>

definition bits :: "int list \<Rightarrow> bool" where
  "bits a = list_all (\<lambda>x. x = 0 \<or> x = 1) a"

definition ckt_ok :: "qec_flag_base_ckt_class \<Rightarrow> bool" where
  "ckt_ok c = (length (pauli_accumulator c) = 2 * num_all_qubits c \<and> bits (pauli_accumulator c))"

text \<open>
  \<open>pauli_on c Q e\<close>: \<open>e\<close> is an error string of the circuit \<open>c\<close> (a vector of \<open>2 * N\<close>
  bits) that is the identity on every qubit outside \<open>Q\<close>.
\<close>

definition pauli_on :: "qec_flag_base_ckt_class \<Rightarrow> nat set \<Rightarrow> int list \<Rightarrow> bool" where
  "pauli_on c Q e =
     (length e = 2 * num_all_qubits c \<and> bits e \<and>
      list_all (\<lambda>i. i \<in> Q \<or> (e ! i = 0 \<and> e ! (i + num_all_qubits c) = 0))
        [0..<num_all_qubits c])"

text \<open>The accumulator composed with an error string by XOR.\<close>

definition xor_with :: "int list \<Rightarrow> qec_flag_base_ckt_class \<Rightarrow> qec_flag_base_ckt_class" where
  "xor_with e c = c\<lparr>pauli_accumulator := map2 lxor (pauli_accumulator c) e\<rparr>"


text \<open>
  \<open>xor_det c0 Q g\<close> and \<open>xor_step c0 Q f\<close>: on every well-formed circuit that differs
  from \<open>c0\<close> in the accumulator only, the statement \<open>g\<close> (which draws nothing) or \<open>f\<close>
  (which may draw) returns, and all it does is compose the accumulator by XOR with an
  error string on the qubits \<open>Q\<close>.
\<close>

definition acc_ok :: "qec_flag_base_ckt_class \<Rightarrow> int list \<Rightarrow> bool" where
  "acc_ok c0 a = (length a = 2 * num_all_qubits c0 \<and> bits a)"

definition xor_det ::
  "qec_flag_base_ckt_class \<Rightarrow> nat set \<Rightarrow>
   (qec_flag_base_ckt_class \<Rightarrow> error + qec_flag_base_ckt_class) \<Rightarrow> bool" where
  "xor_det c0 Q g =
     (\<forall>a. acc_ok c0 a \<longrightarrow>
        (\<exists>e. g (c0\<lparr>pauli_accumulator := a\<rparr>) = Inr (c0\<lparr>pauli_accumulator := map2 lxor a e\<rparr>) \<and>
             pauli_on c0 Q e))"

definition xor_step ::
  "qec_flag_base_ckt_class \<Rightarrow> nat set \<Rightarrow>
   (qec_flag_base_ckt_class rand \<Rightarrow> error + qec_flag_base_ckt_class rand) \<Rightarrow> bool" where
  "xor_step c0 Q f =
     (\<forall>a r. acc_ok c0 a \<longrightarrow>
        (\<exists>e r'. f (c0\<lparr>pauli_accumulator := a\<rparr>, r) =
                  Inr (c0\<lparr>pauli_accumulator := map2 lxor a e\<rparr>, r') \<and>
                pauli_on c0 Q e))"

text \<open>
  \<open>acc_step c0 f\<close>: on every well-formed circuit that differs from \<open>c0\<close> in the
  accumulator only, \<open>f\<close> returns a circuit of the same kind.
\<close>

definition acc_step ::
  "qec_flag_base_ckt_class \<Rightarrow>
   (qec_flag_base_ckt_class rand \<Rightarrow> error + qec_flag_base_ckt_class rand) \<Rightarrow> bool" where
  "acc_step c0 f =
     (\<forall>a r. acc_ok c0 a \<longrightarrow>
        (\<exists>a' r'. f (c0\<lparr>pauli_accumulator := a\<rparr>, r) = Inr (c0\<lparr>pauli_accumulator := a'\<rparr>, r') \<and>
                 acc_ok c0 a'))"

section \<open>Example objects\<close>

text \<open>
  The protocol object the constructor builds from its default arguments (five data
  qubits, one ancilla, one flag, the minimum-weight table, three rates).
\<close>

definition default_protocol :: five_qubit_code_flag_protocol where
  "default_protocol =
     init_protocol 5 1 1 five_qubit_code_flag_min_wt_LUT five_qubit_logical_ops 3
       CHAO_CKT_LVL_NOISE_WITHOUT_IDLING"

text \<open>
  A state before decoding: the first generator gave syndrome 1 without a flag, the pass
  without flags gave \<^verbatim>\<open>[0 0 0 1]\<close>, and the accumulator holds an X on data qubit 0.
\<close>

definition decoding_example :: five_qubit_code_flag_protocol where
  "decoding_example =
     default_protocol
       \<lparr>syndrome_n_flag_1st_subround := PStr ''[[1 0] [None None] [None None] [None None]]'',
        syndrome_2nd_subround := PStr ''[0 0 0 1]'',
        qec_flag_base_ckt := (qec_flag_base_ckt default_protocol)
          \<lparr>pauli_accumulator := [1, 0, 0, 0, 0, 0, 0, 0, 0, 0, 0, 0, 0, 0]\<rparr>\<rparr>"

text \<open>
  A state before decoding with a table whose outer value is a correction itself: all four
  flagged generators gave zero, there is no 2nd subround.
\<close>

definition terminal_example :: five_qubit_code_flag_protocol where
  "terminal_example =
     default_protocol
       \<lparr>syndrome_lookup_table :=
          [''[[0 0] [0 0] [0 0] [0 0]]'' \<mapsto> Terminal [1, 0, 0, 0, 0, 0, 0, 0, 0, 0]],
        syndrome_n_flag_1st_subround := PStr ''[[0 0] [0 0] [0 0] [0 0]]'',
        syndrome_2nd_subround := PNone\<rparr>"

text \<open>Directed overrides: X and Z at location 0, and X and X on the qubits of the gate at location 3.\<close>

definition override_at_0 :: error_spec where
  "override_at_0 =
     \<lparr>inject_error = True, error_loc = Some 0, qubit_idx1 = 0, qubit_idx2 = 5,
      pauli_idx1 = 1, pauli_idx2 = 3\<rparr>"


section \<open>Runs that differ in the draws only\<close>

text \<open>A stream of draws of \<^verbatim>\<open>np.random.uniform()\<close>: every draw lies in \<open>[0, 1)\<close>.\<close>

definition uniform_draws :: "real stream \<Rightarrow> bool" where
  "uniform_draws r = (\<forall>u\<in>sset r. 0 \<le> u \<and> u < 1)"

text \<open>
  Two results agree up to the draws: the same exception, or the same object (which
  satisfies \<open>Q\<close>), each with a rest of uniform draws.
\<close>

definition same_result :: "('s \<Rightarrow> bool) \<Rightarrow> error + 's rand \<Rightarrow> error + 's rand \<Rightarrow> bool" where
  "same_result Q x y =
     (case x of
        Inl e \<Rightarrow> (case y of Inl e' \<Rightarrow> e = e' | Inr _ \<Rightarrow> False)
      | Inr (s, r) \<Rightarrow>
          (case y of
             Inl _ \<Rightarrow> False
           | Inr (s', r') \<Rightarrow> s = s' \<and> Q s \<and> uniform_draws r \<and> uniform_draws r'))"

text \<open>
  \<open>draw_independent Q f g\<close>: from the same object satisfying \<open>Q\<close>, \<open>f\<close> on one stream of
  uniform draws and \<open>g\<close> on another give results that agree up to the draws.
\<close>

definition draw_independent ::
  "('s \<Rightarrow> bool) \<Rightarrow> ('s rand \<Rightarrow> error + 's rand) \<Rightarrow> ('s rand \<Rightarrow> error + 's rand) \<Rightarrow> bool" where
  "draw_independent Q f g =
     (\<forall>s r r'. Q s \<and> uniform_draws r \<and> uniform_draws r' \<longrightarrow>
        same_result Q (f (s, r)) (g (s, r')))"

text \<open>
  \<open>quiet p c\<close>: at the rate \<open>p\<close> no fault of the circuit \<open>c\<close> has a positive
  probability: the rate itself (used unscaled by the code-capacity noise) and the rate
  times each scale factor are at most zero.
\<close>

definition quiet :: "real \<Rightarrow> qec_flag_base_ckt_class \<Rightarrow> bool" where
  "quiet p c =
     (p \<le> 0 \<and>
      error_scale_factor_two_qubit_gate c * p \<le> 0 \<and>
      error_scale_factor_single_qubit_gate c * p \<le> 0 \<and>
      error_scale_factor_prep c * p \<le> 0 \<and>
      error_scale_factor_meas c * p \<le> 0)"

text \<open>
  Sequences of calls of the engine, to state properties of every such sequence.  A
  measurement in a sequence discards its outcome.
\<close>

datatype engine_call =
    Prepare_Z nat
  | Prepare_X nat
  | Reset_ancilla
  | Reset_flag
  | H nat int
  | CNOT nat nat int
  | XNOT nat nat int
  | YNOT nat nat int
  | CZ nat nat int
  | Measure_Z nat
  | Measure_X nat

definition discard_outcome ::
  "(qec_flag_base_ckt_class rand \<Rightarrow> error + int \<times> qec_flag_base_ckt_class rand) \<Rightarrow>
   qec_flag_base_ckt_class rand \<Rightarrow> error + qec_flag_base_ckt_class rand" where
  "discard_outcome m = (\<lambda>s. case m s of Inl e \<Rightarrow> Inl e | Inr (outcome, s') \<Rightarrow> Inr s')"

fun run_call ::
  "real \<Rightarrow> error_spec option \<Rightarrow> engine_call \<Rightarrow>
   qec_flag_base_ckt_class rand \<Rightarrow> error + qec_flag_base_ckt_class rand" where
  "run_call p tc (Prepare_Z q) = prepare_Z_basis q p"
| "run_call p tc (Prepare_X q) = prepare_X_basis q p"
| "run_call p tc Reset_ancilla = reset_ancilla p"
| "run_call p tc Reset_flag = reset_flag p"
| "run_call p tc (H q loc) = h q p tc loc"
| "run_call p tc (CNOT q1 q2 loc) = cnot q1 q2 p tc loc"
| "run_call p tc (XNOT q1 q2 loc) = xnot q1 q2 p tc loc"
| "run_call p tc (YNOT q1 q2 loc) = ynot q1 q2 p tc loc"
| "run_call p tc (CZ q1 q2 loc) = cz q1 q2 p tc loc"
| "run_call p tc (Measure_Z q) = discard_outcome (measure_Z_basis q p)"
| "run_call p tc (Measure_X q) = discard_outcome (measure_X_basis q p)"

definition run_calls ::
  "real \<Rightarrow> error_spec option \<Rightarrow> engine_call list \<Rightarrow>
   qec_flag_base_ckt_class rand \<Rightarrow> error + qec_flag_base_ckt_class rand" where
  "run_calls p tc calls = steps (map (run_call p tc) calls)"

text \<open>
  \<open>no_faults p p' s\<close>: the circuit of the protocol object \<open>s\<close> is quiet at both rates.
\<close>

definition no_faults :: "real \<Rightarrow> real \<Rightarrow> five_qubit_code_flag_protocol \<Rightarrow> bool" where
  "no_faults p p' s = (quiet p (qec_flag_base_ckt s) \<and> quiet p' (qec_flag_base_ckt s))"

section \<open>Verification: arithmetic of error strings\<close>

lemmas default_protocol_simps =
  default_protocol_def init_protocol_def model_scale_factor_two_qubit_gate_def
  model_scale_factor_prep_meas_def

lemma replicate_numeral_Cons: "replicate (numeral k) x = x # replicate (pred_numeral k) x"
  by (simp add: numeral_eq_Suc)

lemma lxor_bit [simp]: "lxor x y = 0 \<or> lxor x y = 1"
  by (simp add: lxor_def)

lemma lxor_zero_right: "x = 0 \<or> x = 1 \<Longrightarrow> lxor x 0 = x"
  by (auto simp: lxor_def)

lemma lxor_assoc: "lxor (lxor x y) z = lxor x (lxor y z)"
  by (simp add: lxor_def)

lemma bits_Nil [simp]: "bits []"
  by (simp add: bits_def)

lemma bits_Cons [simp]: "bits (x # xs) = ((x = 0 \<or> x = 1) \<and> bits xs)"
  by (simp add: bits_def)

lemma bits_nth: "bits a \<Longrightarrow> i < length a \<Longrightarrow> a ! i = 0 \<or> a ! i = 1"
  by (simp add: bits_def list_all_length)

lemma bits_replicate [simp]: "bits (replicate n 0)"
  by (simp add: bits_def list_all_length)


lemma bits_map2_lxor [simp]: "bits (map2 lxor a b)"
  by (simp add: bits_def list_all_length)

lemma bits_append [simp]: "bits (a @ b) = (bits a \<and> bits b)"
  by (simp add: bits_def)

lemma map2_lxor_zeros: "bits a \<Longrightarrow> n = length a \<Longrightarrow> map2 lxor a (replicate n 0) = a"
  by (auto simp: list_eq_iff_nth_eq lxor_zero_right dest: bits_nth)

lemma map2_lxor_assoc:
  "length a = length e1 \<Longrightarrow> length e1 = length e2 \<Longrightarrow>
   map2 lxor (map2 lxor a e1) e2 = map2 lxor a (map2 lxor e1 e2)"
  by (simp add: list_eq_iff_nth_eq lxor_assoc)

lemma logical_xor_same_length:
  "length a = length b \<Longrightarrow> logical_xor a b = Inr (map2 lxor a b)"
  by (simp add: logical_xor_def)

lemma get_item_ok [simp]: "i < length xs \<Longrightarrow> get_item xs i = Inr (xs ! i)"
  by (simp add: get_item_def)

lemma set_item_ok [simp]: "i < length xs \<Longrightarrow> set_item xs i v = Inr (xs[i := v])"
  by (simp add: set_item_def)

lemma num_all_qubits_acc [simp]:
  "num_all_qubits (c\<lparr>pauli_accumulator := a\<rparr>) = num_all_qubits c"
  by (simp add: num_all_qubits_def)

lemma zero_string_acc [simp]: "zero_string (c\<lparr>pauli_accumulator := a\<rparr>) = zero_string c"
  by (simp add: zero_string_def)

lemma length_zero_string [simp]: "length (zero_string c) = 2 * num_all_qubits c"
  by (simp add: zero_string_def)

lemma bits_zero_string [simp]: "bits (zero_string c)"
  by (simp add: zero_string_def)



lemma xor_with_zero: "ckt_ok c \<Longrightarrow> xor_with (zero_string c) c = c"
  by (simp add: xor_with_def ckt_ok_def zero_string_def map2_lxor_zeros)

lemma xor_with_xor_with:
  "ckt_ok c \<Longrightarrow> length e1 = 2 * num_all_qubits c \<Longrightarrow> length e2 = 2 * num_all_qubits c \<Longrightarrow>
   xor_with e2 (xor_with e1 c) = xor_with (map2 lxor e1 e2) c"
  by (simp add: xor_with_def ckt_ok_def map2_lxor_assoc)

lemma num_all_qubits_xor_with [simp]: "num_all_qubits (xor_with e c) = num_all_qubits c"
  by (simp add: xor_with_def)

lemma zero_string_xor_with [simp]: "zero_string (xor_with e c) = zero_string c"
  by (simp add: xor_with_def)

text \<open>Error strings acting on a set of qubits.\<close>

lemma pauli_on_length: "pauli_on c Q e \<Longrightarrow> length e = 2 * num_all_qubits c"
  by (simp add: pauli_on_def)

lemma pauli_on_mono: "pauli_on c Q e \<Longrightarrow> Q \<subseteq> Q' \<Longrightarrow> pauli_on c Q' e"
  by (auto simp: pauli_on_def list_all_iff)



lemma pauli_on_acc [simp]: "pauli_on (c\<lparr>pauli_accumulator := a\<rparr>) Q e = pauli_on c Q e"
  by (simp add: pauli_on_def)

lemma pauli_on_xor_with [simp]: "pauli_on (xor_with e' c) Q e = pauli_on c Q e"
  by (simp add: xor_with_def)



section \<open>Verification: the engine composes by XOR\<close>


lemma acc_ok_length: "acc_ok c0 a \<Longrightarrow> length a = 2 * num_all_qubits c0"
  by (simp add: acc_ok_def)



lemma xor_det_mono: "xor_det c0 Q g \<Longrightarrow> Q \<subseteq> Q' \<Longrightarrow> xor_det c0 Q' g"
  unfolding xor_det_def by (meson pauli_on_mono)

lemma xor_step_mono: "xor_step c0 Q f \<Longrightarrow> Q \<subseteq> Q' \<Longrightarrow> xor_step c0 Q' f"
  unfolding xor_step_def by (meson pauli_on_mono)






















lemma two_qubit_gate_error_None:
  "two_qubit_gate_error None loc q1 q2 t = two_qubit_gate_depol_error q1 q2 t"
  by (simp add: two_qubit_gate_error_def fun_eq_iff)



















text \<open>Measurements.\<close>

lemma measure_Z_basis_ok:
  assumes "acc_ok c0 a" "q < num_all_qubits c0"
  shows "\<exists>m. (m = 0 \<or> m = 1) \<and>
           measure_Z_basis q p (c0\<lparr>pauli_accumulator := a\<rparr>, r) =
             Inr (m, (c0\<lparr>pauli_accumulator := a\<rparr>, stl r))"
  using assms by (auto simp: measure_Z_basis_def acc_ok_def Let_def)

lemma measure_X_basis_ok:
  assumes "acc_ok c0 a" "q < num_all_qubits c0"
  shows "\<exists>m. (m = 0 \<or> m = 1) \<and>
           measure_X_basis q p (c0\<lparr>pauli_accumulator := a\<rparr>, r) =
             Inr (m, (c0\<lparr>pauli_accumulator := a\<rparr>, stl r))"
  using assms by (auto simp: measure_X_basis_def acc_ok_def Let_def)

section \<open>Verification: preparations and resets\<close>

lemma steps_append:
  "steps (fs @ gs) s = (case steps fs s of Inl e \<Rightarrow> Inl e | Inr s' \<Rightarrow> steps gs s')"
  by (induction fs arbitrary: s) (auto split: sum.splits)














section \<open>Verification: the accumulator is updated by XOR only\<close>












section \<open>Verification: without faults the draws do not matter\<close>

lemma uniform_draws_shd: "uniform_draws r \<Longrightarrow> 0 \<le> shd r"
  by (simp add: uniform_draws_def shd_sset)

lemma uniform_draws_stl: "uniform_draws r \<Longrightarrow> uniform_draws (stl r)"
  by (auto simp: uniform_draws_def dest: stl_sset)

lemma no_fault: "uniform_draws r \<Longrightarrow> t \<le> 0 \<Longrightarrow> \<not> shd r < t"
  using uniform_draws_shd [of r] by simp

lemma same_result_Inr:
  "same_result Q (Inr (s, r)) (Inr (s', r')) = (s = s' \<and> Q s \<and> uniform_draws r \<and> uniform_draws r')"
  by (simp add: same_result_def)

lemma same_result_Inl: "same_result Q (Inl e) (Inl e') = (e = e')"
  by (simp add: same_result_def)

lemma same_result_cases:
  assumes "same_result Q x y"
  obtains (err) e where "x = Inl e" "y = Inl e"
        | (ok) s r r' where "x = Inr (s, r)" "y = Inr (s, r')" "Q s" "uniform_draws r"
            "uniform_draws r'"
proof (cases x)
  case (Inl e)
  then show ?thesis using assms err by (cases y) (simp_all add: same_result_def)
next
  case (Inr sr)
  obtain s r where sr: "sr = (s, r)" by (cases sr)
  show ?thesis
  proof (cases y)
    case (Inl e)
    then show ?thesis using assms Inr sr by (simp add: same_result_def)
  next
    case y: (Inr sr')
    obtain s' r' where sr': "sr' = (s', r')" by (cases sr')
    from assms Inr sr y sr' have "s = s'" "Q s" "uniform_draws r" "uniform_draws r'"
      by (auto simp: same_result_def)
    then show ?thesis using ok [of s r r'] Inr sr y sr' by blast
  qed
qed

lemma draw_independentD:
  "draw_independent Q f g \<Longrightarrow> Q s \<Longrightarrow> uniform_draws r \<Longrightarrow> uniform_draws r' \<Longrightarrow>
   same_result Q (f (s, r)) (g (s, r'))"
  by (simp add: draw_independent_def)

lemma draw_independentI:
  "(\<And>s r r'. Q s \<Longrightarrow> uniform_draws r \<Longrightarrow> uniform_draws r' \<Longrightarrow>
      same_result Q (f (s, r)) (g (s, r'))) \<Longrightarrow> draw_independent Q f g"
  by (simp add: draw_independent_def)

lemma draw_independent_steps:
  "list_all2 (draw_independent Q) fs gs \<Longrightarrow> draw_independent Q (steps fs) (steps gs)"
proof (induction fs gs rule: list_all2_induct)
  case Nil
  show ?case by (rule draw_independentI) (simp add: same_result_Inr)
next
  case (Cons f fs g gs)
  show ?case
  proof (rule draw_independentI)
    fix s r r' assume h: "Q s" "uniform_draws r" "uniform_draws r'"
    from draw_independentD [OF Cons.hyps(1) h]
    show "same_result Q (steps (f # fs) (s, r)) (steps (g # gs) (s, r'))"
    proof (cases rule: same_result_cases)
      case (err e)
      then show ?thesis by (simp add: same_result_Inl)
    next
      case (ok s1 r1 r1')
      then show ?thesis
        using draw_independentD [OF Cons.IH ok(3,4,5)] by simp
    qed
  qed
qed

lemma draw_independent_then:
  assumes "draw_independent Q f g" "draw_independent Q f' g'"
  shows "draw_independent Q (\<lambda>x. case f x of Inl e \<Rightarrow> Inl e | Inr y \<Rightarrow> f' y)
                           (\<lambda>x. case g x of Inl e \<Rightarrow> Inl e | Inr y \<Rightarrow> g' y)"
proof (rule draw_independentI)
  fix s r r' assume h: "Q s" "uniform_draws r" "uniform_draws r'"
  from draw_independentD [OF assms(1) h]
  show "same_result Q (case f (s, r) of Inl e \<Rightarrow> Inl e | Inr y \<Rightarrow> f' y)
                      (case g (s, r') of Inl e \<Rightarrow> Inl e | Inr y \<Rightarrow> g' y)"
  proof (cases rule: same_result_cases)
    case (err e)
    then show ?thesis by (simp add: same_result_Inl)
  next
    case (ok s1 r1 r1')
    then show ?thesis
      using draw_independentD [OF assms(2) ok(3,4,5)] by simp
  qed
qed

text \<open>A statement that draws nothing and keeps \<open>Q\<close>.\<close>

lemma draw_independent_no_draw:
  assumes "\<And>c c'. Q c \<Longrightarrow> g c = Inr c' \<Longrightarrow> Q c'"
  shows "draw_independent Q (no_draw g) (no_draw g)"
proof (rule draw_independentI)
  fix c r r' assume h: "Q c" "uniform_draws r" "uniform_draws r'"
  show "same_result Q (no_draw g (c, r)) (no_draw g (c, r'))"
    using h assms [OF h(1)]
    by (cases "g c") (simp_all add: no_draw_def same_result_Inl same_result_Inr)
qed

text \<open>A fault whose probability is not positive only takes its draw.\<close>

lemma draw_independent_fault:
  assumes "t \<le> 0" "t' \<le> 0"
  shows "draw_independent Q
           (\<lambda>(c, r). if shd r < t then F c r else Inr (c, stl r))
           (\<lambda>(c, r). if shd r < t' then G c r else Inr (c, stl r))"
proof (rule draw_independentI)
  fix c r r' assume h: "Q c" "uniform_draws r" "uniform_draws r'"
  show "same_result Q (case (c, r) of (c, r) \<Rightarrow> if shd r < t then F c r else Inr (c, stl r))
                      (case (c, r') of (c, r) \<Rightarrow> if shd r < t' then G c r else Inr (c, stl r))"
    using h assms by (simp add: no_fault same_result_Inr uniform_draws_stl)
qed

lemma draw_independent_single_qubit_X_error:
  "t \<le> 0 \<Longrightarrow> t' \<le> 0 \<Longrightarrow>
   draw_independent Q (single_qubit_X_error q t) (single_qubit_X_error q t')"
  unfolding single_qubit_X_error_def by (rule draw_independent_fault)

lemma draw_independent_single_qubit_Z_error:
  "t \<le> 0 \<Longrightarrow> t' \<le> 0 \<Longrightarrow>
   draw_independent Q (single_qubit_Z_error q t) (single_qubit_Z_error q t')"
  unfolding single_qubit_Z_error_def by (rule draw_independent_fault)

lemma draw_independent_single_qubit_depol_error:
  "t \<le> 0 \<Longrightarrow> t' \<le> 0 \<Longrightarrow>
   draw_independent Q (single_qubit_depol_error q t) (single_qubit_depol_error q t')"
  unfolding single_qubit_depol_error_def by (rule draw_independent_fault)

lemma draw_independent_two_qubit_gate_depol_error:
  "t \<le> 0 \<Longrightarrow> t' \<le> 0 \<Longrightarrow>
   draw_independent Q (two_qubit_gate_depol_error q1 q2 t) (two_qubit_gate_depol_error q1 q2 t')"
  unfolding two_qubit_gate_depol_error_def by (rule draw_independent_fault)

lemma quiet_acc [simp]: "quiet p (c\<lparr>pauli_accumulator := a\<rparr>) = quiet p c"
  by (simp add: quiet_def)

lemma quiet_zero [simp]: "quiet 0 c"
  by (simp add: quiet_def)

text \<open>The statements that draw nothing change the accumulator only.\<close>

lemma xor_accumulator_only_acc:
  "xor_accumulator e c = Inr c' \<Longrightarrow> \<exists>a. c' = c\<lparr>pauli_accumulator := a\<rparr>"
  by (auto simp: xor_accumulator_def split: sum.splits)

lemma xor_all_only_acc:
  "xor_all es c = Inr c' \<Longrightarrow> \<exists>a. c' = c\<lparr>pauli_accumulator := a\<rparr>"
proof (induction es arbitrary: c)
  case Nil
  then have "c' = c\<lparr>pauli_accumulator := pauli_accumulator c\<rparr>" by simp
  then show ?case by blast
next
  case (Cons e es)
  from Cons.prems obtain c1 where 1: "xor_accumulator e c = Inr c1" and 2: "xor_all es c1 = Inr c'"
    by (auto split: sum.splits)
  from xor_accumulator_only_acc [OF 1] obtain a1 where "c1 = c\<lparr>pauli_accumulator := a1\<rparr>" by blast
  moreover from Cons.IH [OF 2] obtain a2 where "c' = c1\<lparr>pauli_accumulator := a2\<rparr>" by blast
  ultimately have "c' = c\<lparr>pauli_accumulator := a2\<rparr>" by simp
  then show ?case by blast
qed

lemma clear_bit_only_acc:
  "clear_bit i c = Inr c' \<Longrightarrow> \<exists>a. c' = c\<lparr>pauli_accumulator := a\<rparr>"
  by (auto simp: clear_bit_def split: sum.splits)

lemma h_propagate_only_acc:
  "h_propagate q c = Inr c' \<Longrightarrow> \<exists>a. c' = c\<lparr>pauli_accumulator := a\<rparr>"
  by (auto simp: h_propagate_def split: sum.splits)

lemma cnot_propagate_only_acc:
  "cnot_propagate q1 q2 c = Inr c' \<Longrightarrow> \<exists>a. c' = c\<lparr>pauli_accumulator := a\<rparr>"
  unfolding cnot_propagate_def
  by (auto split: sum.splits dest: xor_all_only_acc simp del: xor_all.simps)

lemma xnot_propagate_only_acc:
  "xnot_propagate q1 q2 c = Inr c' \<Longrightarrow> \<exists>a. c' = c\<lparr>pauli_accumulator := a\<rparr>"
  unfolding xnot_propagate_def
  by (auto split: sum.splits dest: xor_all_only_acc simp del: xor_all.simps)

lemma ynot_propagate_only_acc:
  "ynot_propagate q1 q2 c = Inr c' \<Longrightarrow> \<exists>a. c' = c\<lparr>pauli_accumulator := a\<rparr>"
  unfolding ynot_propagate_def
  by (auto split: sum.splits dest: xor_all_only_acc simp del: xor_all.simps)

lemma cz_propagate_only_acc:
  "cz_propagate q1 q2 c = Inr c' \<Longrightarrow> \<exists>a. c' = c\<lparr>pauli_accumulator := a\<rparr>"
  unfolding cz_propagate_def
  by (auto split: sum.splits dest: xor_all_only_acc simp del: xor_all.simps)

lemma draw_independent_no_draw_acc:
  assumes "\<And>c c'. g c = Inr c' \<Longrightarrow> \<exists>a. c' = c\<lparr>pauli_accumulator := a\<rparr>"
  shows "draw_independent (\<lambda>c. quiet p c \<and> quiet p' c) (no_draw g) (no_draw g)"
proof (rule draw_independent_no_draw)
  fix c c' assume "quiet p c \<and> quiet p' c" "g c = Inr c'"
  then show "quiet p c' \<and> quiet p' c'" using assms [of c c'] by auto
qed

lemma draw_independent_closure:
  assumes "\<And>c r. f (c, r) = steps (F c) (c, r)" "\<And>c r. g (c, r) = steps (G c) (c, r)"
    and "\<And>c. Q c \<Longrightarrow> list_all2 (draw_independent Q) (F c) (G c)"
  shows "draw_independent Q f g"
proof (rule draw_independentI)
  fix c r r' assume h: "Q c" "uniform_draws r" "uniform_draws r'"
  from draw_independentD [OF draw_independent_steps [OF assms(3) [OF h(1)]] h]
  show "same_result Q (f (c, r)) (g (c, r'))"
    by (simp only: assms(1,2))
qed

lemma list_all2_concat_map:
  "(\<And>x. x \<in> set xs \<Longrightarrow> list_all2 R (f x) (g x)) \<Longrightarrow>
   list_all2 R (concat (map f xs)) (concat (map g xs))"
  by (induction xs) (auto intro: list_all2_appendI)

lemma list_all2_map_same:
  "(\<And>x. x \<in> set xs \<Longrightarrow> R (f x) (g x)) \<Longrightarrow> list_all2 R (map f xs) (map g xs)"
  by (induction xs) auto

text \<open>Gates, preparations and resets at rates without faults.\<close>

lemma quietD:
  assumes "quiet p c"
  shows "p \<le> 0" "error_scale_factor_two_qubit_gate c * p \<le> 0"
    "error_scale_factor_single_qubit_gate c * p \<le> 0"
    "error_scale_factor_prep c * p \<le> 0" "error_scale_factor_meas c * p \<le> 0"
  using assms by (simp_all add: quiet_def)

lemma draw_independent_two_qubit_gate:
  assumes "\<And>c c'. g c = Inr c' \<Longrightarrow> \<exists>a. c' = c\<lparr>pauli_accumulator := a\<rparr>"
  shows "draw_independent (\<lambda>c. quiet p c \<and> quiet p' c)
           (\<lambda>(c, r). steps [no_draw g,
              two_qubit_gate_depol_error q1 q2 (error_scale_factor_two_qubit_gate c * p)] (c, r))
           (\<lambda>(c, r). steps [no_draw g,
              two_qubit_gate_depol_error q1 q2 (error_scale_factor_two_qubit_gate c * p')] (c, r))"
proof (rule draw_independent_closure
       [where F = "\<lambda>c. [no_draw g,
                        two_qubit_gate_depol_error q1 q2 (error_scale_factor_two_qubit_gate c * p)]"
          and G = "\<lambda>c. [no_draw g,
                        two_qubit_gate_depol_error q1 q2 (error_scale_factor_two_qubit_gate c * p')]"])
  fix c assume "quiet p c \<and> quiet p' c"
  then have t: "error_scale_factor_two_qubit_gate c * p \<le> 0"
    "error_scale_factor_two_qubit_gate c * p' \<le> 0"
    by (simp_all add: quietD)
  show "list_all2 (draw_independent (\<lambda>c. quiet p c \<and> quiet p' c))
          [no_draw g, two_qubit_gate_depol_error q1 q2 (error_scale_factor_two_qubit_gate c * p)]
          [no_draw g, two_qubit_gate_depol_error q1 q2 (error_scale_factor_two_qubit_gate c * p')]"
    using draw_independent_no_draw_acc [of g p p', OF assms]
      draw_independent_two_qubit_gate_depol_error [OF t]
    by simp
qed (simp_all only: prod.case)

lemma draw_independent_h:
  "draw_independent (\<lambda>c. quiet p c \<and> quiet p' c) (h q p tc loc) (h q p' tc' loc')"
  unfolding h_def
proof (rule draw_independent_closure
       [where F = "\<lambda>c. [no_draw (h_propagate q),
                        single_qubit_depol_error q (error_scale_factor_single_qubit_gate c * p)]"
          and G = "\<lambda>c. [no_draw (h_propagate q),
                        single_qubit_depol_error q (error_scale_factor_single_qubit_gate c * p')]"])
  fix c assume "quiet p c \<and> quiet p' c"
  then have t: "error_scale_factor_single_qubit_gate c * p \<le> 0"
    "error_scale_factor_single_qubit_gate c * p' \<le> 0"
    by (simp_all add: quietD)
  show "list_all2 (draw_independent (\<lambda>c. quiet p c \<and> quiet p' c))
          [no_draw (h_propagate q),
           single_qubit_depol_error q (error_scale_factor_single_qubit_gate c * p)]
          [no_draw (h_propagate q),
           single_qubit_depol_error q (error_scale_factor_single_qubit_gate c * p')]"
    using draw_independent_no_draw_acc [of "h_propagate q" p p', OF h_propagate_only_acc]
      draw_independent_single_qubit_depol_error [OF t]
    by simp
qed (simp_all only: prod.case)

lemma draw_independent_cnot:
  "draw_independent (\<lambda>c. quiet p c \<and> quiet p' c) (cnot q1 q2 p tc loc) (cnot q1 q2 p' tc' loc')"
  unfolding cnot_def two_qubit_gate_error_None
  by (rule draw_independent_two_qubit_gate [OF cnot_propagate_only_acc])

lemma draw_independent_xnot:
  "draw_independent (\<lambda>c. quiet p c \<and> quiet p' c) (xnot q1 q2 p tc loc) (xnot q1 q2 p' tc' loc')"
  unfolding xnot_def two_qubit_gate_error_None
  by (rule draw_independent_two_qubit_gate [OF xnot_propagate_only_acc])

lemma draw_independent_ynot:
  "draw_independent (\<lambda>c. quiet p c \<and> quiet p' c) (ynot q1 q2 p tc loc) (ynot q1 q2 p' tc' loc')"
  unfolding ynot_def two_qubit_gate_error_None
  by (rule draw_independent_two_qubit_gate [OF ynot_propagate_only_acc])

lemma draw_independent_cz:
  "draw_independent (\<lambda>c. quiet p c \<and> quiet p' c) (cz q1 q2 p tc loc) (cz q1 q2 p' tc' loc')"
  unfolding cz_def two_qubit_gate_error_None
  by (rule draw_independent_two_qubit_gate [OF cz_propagate_only_acc])

lemma draw_independent_prepare_Z_basis:
  "draw_independent (\<lambda>c. quiet p c \<and> quiet p' c) (prepare_Z_basis q p) (prepare_Z_basis q p')"
  unfolding prepare_Z_basis_def
proof (rule draw_independent_closure
       [where F = "\<lambda>c. [no_draw (clear_bit q), no_draw (clear_bit (q + num_all_qubits c)),
                        single_qubit_X_error q (error_scale_factor_prep c * p)]"
          and G = "\<lambda>c. [no_draw (clear_bit q), no_draw (clear_bit (q + num_all_qubits c)),
                        single_qubit_X_error q (error_scale_factor_prep c * p')]"])
  fix c assume "quiet p c \<and> quiet p' c"
  then have t: "error_scale_factor_prep c * p \<le> 0" "error_scale_factor_prep c * p' \<le> 0"
    by (simp_all add: quietD)
  show "list_all2 (draw_independent (\<lambda>c. quiet p c \<and> quiet p' c))
          [no_draw (clear_bit q), no_draw (clear_bit (q + num_all_qubits c)),
           single_qubit_X_error q (error_scale_factor_prep c * p)]
          [no_draw (clear_bit q), no_draw (clear_bit (q + num_all_qubits c)),
           single_qubit_X_error q (error_scale_factor_prep c * p')]"
    using draw_independent_no_draw_acc [of "clear_bit i" p p' for i, OF clear_bit_only_acc]
      draw_independent_single_qubit_X_error [OF t]
    by simp
qed (simp_all only: prod.case)

lemma draw_independent_prepare_X_basis:
  "draw_independent (\<lambda>c. quiet p c \<and> quiet p' c) (prepare_X_basis q p) (prepare_X_basis q p')"
  unfolding prepare_X_basis_def
proof (rule draw_independent_closure
       [where F = "\<lambda>c. [no_draw (clear_bit q), no_draw (clear_bit (q + num_all_qubits c)),
                        single_qubit_Z_error q (error_scale_factor_prep c * p)]"
          and G = "\<lambda>c. [no_draw (clear_bit q), no_draw (clear_bit (q + num_all_qubits c)),
                        single_qubit_Z_error q (error_scale_factor_prep c * p')]"])
  fix c assume "quiet p c \<and> quiet p' c"
  then have t: "error_scale_factor_prep c * p \<le> 0" "error_scale_factor_prep c * p' \<le> 0"
    by (simp_all add: quietD)
  show "list_all2 (draw_independent (\<lambda>c. quiet p c \<and> quiet p' c))
          [no_draw (clear_bit q), no_draw (clear_bit (q + num_all_qubits c)),
           single_qubit_Z_error q (error_scale_factor_prep c * p)]
          [no_draw (clear_bit q), no_draw (clear_bit (q + num_all_qubits c)),
           single_qubit_Z_error q (error_scale_factor_prep c * p')]"
    using draw_independent_no_draw_acc [of "clear_bit i" p p' for i, OF clear_bit_only_acc]
      draw_independent_single_qubit_Z_error [OF t]
    by simp
qed (simp_all only: prod.case)

lemma draw_independent_reset_loop:
  assumes E: "\<And>q t t'. t \<le> 0 \<Longrightarrow> t' \<le> 0 \<Longrightarrow>
                draw_independent (\<lambda>c. quiet p c \<and> quiet p' c) (E q t) (E q t')"
  shows "draw_independent (\<lambda>c. quiet p c \<and> quiet p' c)
     (\<lambda>(c, r). steps (concat (map (\<lambda>i.
              [no_draw (clear_bit (k c + i)),
               no_draw (clear_bit (k c + i + num_all_qubits c)),
               E (k c + i) (error_scale_factor_prep c * p)])
            [0..<n c])) (c, r))
     (\<lambda>(c, r). steps (concat (map (\<lambda>i.
              [no_draw (clear_bit (k c + i)),
               no_draw (clear_bit (k c + i + num_all_qubits c)),
               E (k c + i) (error_scale_factor_prep c * p')])
            [0..<n c])) (c, r))"
proof (rule draw_independent_closure
       [where F = "\<lambda>c. concat (map (\<lambda>i.
              [no_draw (clear_bit (k c + i)),
               no_draw (clear_bit (k c + i + num_all_qubits c)),
               E (k c + i) (error_scale_factor_prep c * p)])
            [0..<n c])"
          and G = "\<lambda>c. concat (map (\<lambda>i.
              [no_draw (clear_bit (k c + i)),
               no_draw (clear_bit (k c + i + num_all_qubits c)),
               E (k c + i) (error_scale_factor_prep c * p')])
            [0..<n c])"])
  fix c assume "quiet p c \<and> quiet p' c"
  then have t: "error_scale_factor_prep c * p \<le> 0" "error_scale_factor_prep c * p' \<le> 0"
    by (simp_all add: quietD)
  show "list_all2 (draw_independent (\<lambda>c. quiet p c \<and> quiet p' c))
          (concat (map (\<lambda>i.
              [no_draw (clear_bit (k c + i)),
               no_draw (clear_bit (k c + i + num_all_qubits c)),
               E (k c + i) (error_scale_factor_prep c * p)])
            [0..<n c]))
          (concat (map (\<lambda>i.
              [no_draw (clear_bit (k c + i)),
               no_draw (clear_bit (k c + i + num_all_qubits c)),
               E (k c + i) (error_scale_factor_prep c * p')])
            [0..<n c]))"
  proof (rule list_all2_concat_map)
    fix i
    show "list_all2 (draw_independent (\<lambda>c. quiet p c \<and> quiet p' c))
            [no_draw (clear_bit (k c + i)),
             no_draw (clear_bit (k c + i + num_all_qubits c)),
             E (k c + i) (error_scale_factor_prep c * p)]
            [no_draw (clear_bit (k c + i)),
             no_draw (clear_bit (k c + i + num_all_qubits c)),
             E (k c + i) (error_scale_factor_prep c * p')]"
      using draw_independent_no_draw_acc [of "clear_bit j" p p' for j, OF clear_bit_only_acc]
        E [OF t]
      by simp
  qed
qed (simp_all only: prod.case)

lemma draw_independent_reset_ancilla:
  "draw_independent (\<lambda>c. quiet p c \<and> quiet p' c) (reset_ancilla p) (reset_ancilla p')"
  unfolding reset_ancilla_def
  by (rule draw_independent_reset_loop [where k = num_data_qubits and n = num_anc_qubits])
     (rule draw_independent_single_qubit_X_error)

lemma draw_independent_reset_flag:
  "draw_independent (\<lambda>c. quiet p c \<and> quiet p' c) (reset_flag p) (reset_flag p')"
  unfolding reset_flag_def
  by (rule draw_independent_reset_loop
        [where k = "\<lambda>c. num_data_qubits c + num_anc_qubits c" and n = num_flag_qubits])
     (rule draw_independent_single_qubit_Z_error)

lemma draw_independent_one_stochastic:
  "draw_independent (\<lambda>c. quiet p c \<and> quiet p' c)
     (one_stochastic_pauli_error_data_qubits p) (one_stochastic_pauli_error_data_qubits p')"
  unfolding one_stochastic_pauli_error_data_qubits_def
proof (rule draw_independent_closure
       [where F = "\<lambda>c. map (\<lambda>n (c, r).
                   if shd r < p then
                     (case get_item (data_qubits c) n of
                        Inl e \<Rightarrow> Inl e
                      | Inr q \<Rightarrow>
                          (case depol_choice (shd (stl r)) q c of
                             Inl e \<Rightarrow> Inl e
                           | Inr c' \<Rightarrow> Inr (c', stl (stl r))))
                   else Inr (c, stl r))
                [0..<num_data_qubits c]"
          and G = "\<lambda>c. map (\<lambda>n (c, r).
                   if shd r < p' then
                     (case get_item (data_qubits c) n of
                        Inl e \<Rightarrow> Inl e
                      | Inr q \<Rightarrow>
                          (case depol_choice (shd (stl r)) q c of
                             Inl e \<Rightarrow> Inl e
                           | Inr c' \<Rightarrow> Inr (c', stl (stl r))))
                   else Inr (c, stl r))
                [0..<num_data_qubits c]"])
  fix c assume "quiet p c \<and> quiet p' c"
  then have t: "p \<le> 0" "p' \<le> 0"
    by (simp_all add: quiet_def)
  show "list_all2 (draw_independent (\<lambda>c. quiet p c \<and> quiet p' c))
          (map (\<lambda>n (c, r).
                   if shd r < p then
                     (case get_item (data_qubits c) n of
                        Inl e \<Rightarrow> Inl e
                      | Inr q \<Rightarrow>
                          (case depol_choice (shd (stl r)) q c of
                             Inl e \<Rightarrow> Inl e
                           | Inr c' \<Rightarrow> Inr (c', stl (stl r))))
                   else Inr (c, stl r))
                [0..<num_data_qubits c])
          (map (\<lambda>n (c, r).
                   if shd r < p' then
                     (case get_item (data_qubits c) n of
                        Inl e \<Rightarrow> Inl e
                      | Inr q \<Rightarrow>
                          (case depol_choice (shd (stl r)) q c of
                             Inl e \<Rightarrow> Inl e
                           | Inr c' \<Rightarrow> Inr (c', stl (stl r))))
                   else Inr (c, stl r))
                [0..<num_data_qubits c])"
    by (rule list_all2_map_same) (rule draw_independent_fault [OF t])
qed (simp_all only: prod.case)

text \<open>Measurements at rates without faults report the bit of the accumulator.\<close>

lemma measure_Z_basis_quiet:
  assumes "quiet p c" "uniform_draws r"
  shows "measure_Z_basis q p (c, r) =
           (case get_item (pauli_accumulator c) q of
              Inl e \<Rightarrow> Inl e
            | Inr b \<Rightarrow> Inr (if b = 1 then 1 else 0, (c, stl r)))"
  using no_fault [OF assms(2) quietD(5) [OF assms(1)]]
  by (simp add: measure_Z_basis_def Let_def split: sum.splits)

lemma measure_X_basis_quiet:
  assumes "quiet p c" "uniform_draws r"
  shows "measure_X_basis q p (c, r) =
           (case get_item (pauli_accumulator c) (q + num_all_qubits c) of
              Inl e \<Rightarrow> Inl e
            | Inr b \<Rightarrow> Inr (if b = 1 then 1 else 0, (c, stl r)))"
  using no_fault [OF assms(2) quietD(5) [OF assms(1)]]
  by (simp add: measure_X_basis_def Let_def split: sum.splits)

lemma draw_independent_measure_Z_basis:
  "draw_independent (\<lambda>c. quiet p c \<and> quiet p' c)
     (discard_outcome (measure_Z_basis q p)) (discard_outcome (measure_Z_basis q p'))"
proof (rule draw_independentI)
  fix c r r' assume h: "quiet p c \<and> quiet p' c" "uniform_draws r" "uniform_draws r'"
  then show "same_result (\<lambda>c. quiet p c \<and> quiet p' c)
               (discard_outcome (measure_Z_basis q p) (c, r))
               (discard_outcome (measure_Z_basis q p') (c, r'))"
    by (simp add: discard_outcome_def measure_Z_basis_quiet same_result_Inr same_result_Inl
          uniform_draws_stl split: sum.splits)
qed

lemma draw_independent_measure_X_basis:
  "draw_independent (\<lambda>c. quiet p c \<and> quiet p' c)
     (discard_outcome (measure_X_basis q p)) (discard_outcome (measure_X_basis q p'))"
proof (rule draw_independentI)
  fix c r r' assume h: "quiet p c \<and> quiet p' c" "uniform_draws r" "uniform_draws r'"
  then show "same_result (\<lambda>c. quiet p c \<and> quiet p' c)
               (discard_outcome (measure_X_basis q p) (c, r))
               (discard_outcome (measure_X_basis q p') (c, r'))"
    by (simp add: discard_outcome_def measure_X_basis_quiet same_result_Inr same_result_Inl
          uniform_draws_stl split: sum.splits)
qed

lemma draw_independent_run_call:
  "draw_independent (\<lambda>c. quiet p c \<and> quiet p' c) (run_call p tc call) (run_call p' tc' call)"
  by (cases call)
     (simp_all add: draw_independent_prepare_Z_basis draw_independent_prepare_X_basis
        draw_independent_reset_ancilla draw_independent_reset_flag draw_independent_h
        draw_independent_cnot draw_independent_xnot draw_independent_ynot draw_independent_cz
        draw_independent_measure_Z_basis draw_independent_measure_X_basis)

lemma draw_independent_run_calls:
  "draw_independent (\<lambda>c. quiet p c \<and> quiet p' c) (run_calls p tc calls) (run_calls p' tc' calls)"
  unfolding run_calls_def
  by (rule draw_independent_steps, rule list_all2_map_same, rule draw_independent_run_call)

lemma same_result_map_sum:
  "same_result Q x y \<Longrightarrow> map_sum id fst x = map_sum id fst y"
  by (erule same_result_cases) simp_all

text \<open>
  Claim C6.  Take any sequence of calls of the engine (preparations, resets, gates and
  measurements), executed with the fault probability \<open>p = 0\<close>, from a circuit object
  \<open>c\<close>, and two runs of it on any two streams of draws of \<^verbatim>\<open>np.random.uniform()\<close>
  (values in \<open>[0, 1)\<close>).  Both runs end alike: either both raise the same exception, or
  both return the same circuit object, in particular the same Pauli accumulator.  So
  at \<open>p = 0\<close> the accumulator is a function of the call sequence and of the initial
  circuit, not of the random source.
\<close>

theorem engine_calls_deterministic_at_zero_rate:
  assumes "uniform_draws r" "uniform_draws r'"
  shows "map_sum id fst (run_calls 0 tc calls (c, r)) =
         map_sum id fst (run_calls 0 tc calls (c, r'))"
proof -
  have "quiet 0 c \<and> quiet 0 c" by simp
  from draw_independentD [OF draw_independent_run_calls this assms]
  show ?thesis by (rule same_result_map_sum)
qed

theorem engine_calls_deterministic_at_zero_rate_witness:
  "uniform_draws (sconst (1 / 2)) \<and> uniform_draws (sconst (1 / 4)) \<and>
   map_sum id fst
     (run_calls 0 None [Prepare_X 5, CNOT 5 0 1, CZ 5 1 2, H 5 3, Measure_Z 5, Reset_ancilla]
        (qec_flag_base_ckt default_protocol, sconst (1 / 2))) =
   map_sum id fst
     (run_calls 0 None [Prepare_X 5, CNOT 5 0 1, CZ 5 1 2, H 5 3, Measure_Z 5, Reset_ancilla]
        (qec_flag_base_ckt default_protocol, sconst (1 / 4)))"
  using engine_calls_deterministic_at_zero_rate
    [of "sconst (1 / 2)" "sconst (1 / 4)" None
        "[Prepare_X 5, CNOT 5 0 1, CZ 5 1 2, H 5 3, Measure_Z 5, Reset_ancilla]"
        "qec_flag_base_ckt default_protocol"]
  by (simp add: uniform_draws_def)

section \<open>Runs of the protocol that differ in the draws only\<close>

lemma no_faults_ckt_acc [simp]:
  "no_faults p p' (s\<lparr>qec_flag_base_ckt := (qec_flag_base_ckt s)\<lparr>pauli_accumulator := a\<rparr>\<rparr>) =
   no_faults p p' s"
  by (simp add: no_faults_def)

lemma no_faults_fields [simp]:
  "no_faults p p' (s\<lparr>syndrome_ex_status := st\<rparr>) = no_faults p p' s"
  "no_faults p p' (s\<lparr>current_syndrome_n_flag := v\<rparr>) = no_faults p p' s"
  "no_faults p p' (s\<lparr>syndrome_n_flag_1st_subround := v\<rparr>) = no_faults p p' s"
  "no_faults p p' (s\<lparr>syndrome_2nd_subround := v\<rparr>) = no_faults p p' s"
  "no_faults p p' (s\<lparr>logical_error_counts := cs\<rparr>) = no_faults p p' s"
  by (simp_all add: no_faults_def)

lemma draw_independent_on_ckt:
  assumes "draw_independent (\<lambda>c. quiet p c \<and> quiet p' c) f g"
  shows "draw_independent (no_faults p p') (on_ckt f) (on_ckt g)"
proof (rule draw_independentI)
  fix s r r' assume h: "no_faults p p' s" "uniform_draws r" "uniform_draws r'"
  then have "quiet p (qec_flag_base_ckt s) \<and> quiet p' (qec_flag_base_ckt s)"
    by (simp add: no_faults_def)
  from draw_independentD [OF assms this h(2,3)]
  show "same_result (no_faults p p') (on_ckt f (s, r)) (on_ckt g (s, r'))"
  proof (cases rule: same_result_cases)
    case (err e)
    then show ?thesis by (simp add: on_ckt_def same_result_Inl)
  next
    case (ok c r1 r1')
    then show ?thesis by (simp add: on_ckt_def same_result_Inr no_faults_def)
  qed
qed

lemma draw_independent_pure_step:
  assumes "\<And>s s'. Q s \<Longrightarrow> f s = Inr s' \<Longrightarrow> Q s'"
  shows "draw_independent Q (pure_step f) (pure_step f)"
proof (rule draw_independentI)
  fix s r r' assume h: "Q s" "uniform_draws r" "uniform_draws r'"
  show "same_result Q (pure_step f (s, r)) (pure_step f (s, r'))"
    using h assms [OF h(1)]
    by (cases "f s") (simp_all add: pure_step_def same_result_Inl same_result_Inr)
qed

lemma draw_independent_if:
  assumes "draw_independent Q f g"
  shows "draw_independent Q (\<lambda>(s, r). if b s then f (s, r) else Inr (s, r))
                           (\<lambda>(s, r). if b s then g (s, r) else Inr (s, r))"
proof (rule draw_independentI)
  fix s r r' assume h: "Q s" "uniform_draws r" "uniform_draws r'"
  from draw_independentD [OF assms h] h
  show "same_result Q (case (s, r) of (s, r) \<Rightarrow> if b s then f (s, r) else Inr (s, r))
                      (case (s, r') of (s, r) \<Rightarrow> if b s then g (s, r) else Inr (s, r))"
    by (simp add: same_result_Inr)
qed

lemma draw_independent_guard:
  assumes "draw_independent Q f g"
  shows "draw_independent Q (\<lambda>(s, r). if b s then Inl e else f (s, r))
                           (\<lambda>(s, r). if b s then Inl e else g (s, r))"
proof (rule draw_independentI)
  fix s r r' assume h: "Q s" "uniform_draws r" "uniform_draws r'"
  from draw_independentD [OF assms h] h
  show "same_result Q (case (s, r) of (s, r) \<Rightarrow> if b s then Inl e else f (s, r))
                      (case (s, r') of (s, r) \<Rightarrow> if b s then Inl e else g (s, r))"
    by (simp add: same_result_Inl)
qed

lemma draw_independent_gate_on:
  assumes "\<And>q1 q2. draw_independent (\<lambda>c. quiet p c \<and> quiet p' c)
                      (g q1 q2 p tc loc) (g q1 q2 p' tc' loc')"
  shows "draw_independent (no_faults p p')
           (gate_on g qs1 i1 qs2 i2 p tc loc) (gate_on g qs1 i1 qs2 i2 p' tc' loc')"
  unfolding gate_on_def
proof (rule draw_independent_on_ckt, rule draw_independentI)
  fix c r r'
  assume h: "quiet p c \<and> quiet p' c" "uniform_draws r" "uniform_draws r'"
  show "same_result (\<lambda>c. quiet p c \<and> quiet p' c)
          (case (c, r) of (c, r) \<Rightarrow>
             case get_item (qs1 c) i1 of Inl e \<Rightarrow> Inl e
             | Inr q1 \<Rightarrow> (case get_item (qs2 c) i2 of Inl e \<Rightarrow> Inl e
                          | Inr q2 \<Rightarrow> g q1 q2 p tc loc (c, r)))
          (case (c, r') of (c, r) \<Rightarrow>
             case get_item (qs1 c) i1 of Inl e \<Rightarrow> Inl e
             | Inr q1 \<Rightarrow> (case get_item (qs2 c) i2 of Inl e \<Rightarrow> Inl e
                          | Inr q2 \<Rightarrow> g q1 q2 p' tc' loc' (c, r)))"
    using draw_independentD [OF assms h]
    by (simp add: same_result_Inl split: sum.splits)
qed

lemma draw_independent_gate_on_cnot:
  "draw_independent (no_faults p p')
     (gate_on cnot qs1 i1 qs2 i2 p tc loc) (gate_on cnot qs1 i1 qs2 i2 p' tc' loc')"
  by (rule draw_independent_gate_on) (rule draw_independent_cnot)

lemma draw_independent_gate_on_xnot:
  "draw_independent (no_faults p p')
     (gate_on xnot qs1 i1 qs2 i2 p tc loc) (gate_on xnot qs1 i1 qs2 i2 p' tc' loc')"
  by (rule draw_independent_gate_on) (rule draw_independent_xnot)

lemma measure_ancilla_and_flag_quiet:
  assumes "quiet p (qec_flag_base_ckt s)" "uniform_draws r"
  shows "measure_ancilla_and_flag with_flag p (s, r) =
     (case get_item (anc_qubits (qec_flag_base_ckt s)) 0 of
        Inl e \<Rightarrow> Inl e
      | Inr anc \<Rightarrow>
          (case get_item (pauli_accumulator (qec_flag_base_ckt s)) anc of
             Inl e \<Rightarrow> Inl e
           | Inr b \<Rightarrow>
               if with_flag then
                 (case get_item (flag_qubits (qec_flag_base_ckt s)) 0 of
                    Inl e \<Rightarrow> Inl e
                  | Inr flg \<Rightarrow>
                      (case get_item (pauli_accumulator (qec_flag_base_ckt s))
                              (flg + num_all_qubits (qec_flag_base_ckt s)) of
                         Inl e \<Rightarrow> Inl e
                       | Inr b' \<Rightarrow>
                           Inr (s\<lparr>current_syndrome_n_flag :=
                                    Arr2 [(Some (if b = 1 then 1 else 0),
                                           Some (if b' = 1 then 1 else 0))]\<rparr>,
                                stl (stl r))))
               else Inr (s\<lparr>current_syndrome_n_flag := Arr1 [Some (if b = 1 then 1 else 0)]\<rparr>,
                         stl r)))"
proof (cases "get_item (anc_qubits (qec_flag_base_ckt s)) 0")
  case (Inl e)
  then show ?thesis by (simp add: measure_ancilla_and_flag_def)
next
  case anc: (Inr anc)
  show ?thesis
  proof (cases "get_item (pauli_accumulator (qec_flag_base_ckt s)) anc")
    case (Inl e)
    then show ?thesis
      by (simp add: measure_ancilla_and_flag_def anc measure_Z_basis_quiet [OF assms])
  next
    case b: (Inr b)
    have mz: "measure_Z_basis anc p (qec_flag_base_ckt s, r) =
                Inr (if b = 1 then 1 else 0, (qec_flag_base_ckt s, stl r))"
      by (simp add: measure_Z_basis_quiet [OF assms] b)
    show ?thesis
    proof (cases with_flag)
      case False
      then show ?thesis
        by (simp add: measure_ancilla_and_flag_def anc b mz del: One_nat_def)
    next
      case True
      show ?thesis
      proof (cases "get_item (flag_qubits (qec_flag_base_ckt s)) 0")
        case (Inl e)
        then show ?thesis
          by (simp add: measure_ancilla_and_flag_def anc b mz True)
      next
        case flg: (Inr flg)
        have mx: "measure_X_basis flg p (qec_flag_base_ckt s, stl r) =
                (case get_item (pauli_accumulator (qec_flag_base_ckt s))
                        (flg + num_all_qubits (qec_flag_base_ckt s)) of
                   Inl e \<Rightarrow> Inl e
                 | Inr b' \<Rightarrow> Inr (if b' = 1 then 1 else 0, (qec_flag_base_ckt s, stl (stl r))))"
          by (rule measure_X_basis_quiet [OF assms(1) uniform_draws_stl [OF assms(2)]])
        show ?thesis
          by (cases "get_item (pauli_accumulator (qec_flag_base_ckt s))
                        (flg + num_all_qubits (qec_flag_base_ckt s))")
             (simp_all add: measure_ancilla_and_flag_def anc b mz True flg mx)
      qed
    qed
  qed
qed

lemma draw_independent_measure_ancilla_and_flag:
  "draw_independent (no_faults p p')
     (measure_ancilla_and_flag with_flag p) (measure_ancilla_and_flag with_flag p')"
proof (rule draw_independentI)
  fix s r r' assume h: "no_faults p p' s" "uniform_draws r" "uniform_draws r'"
  then have q: "quiet p (qec_flag_base_ckt s)" "quiet p' (qec_flag_base_ckt s)"
    by (simp_all add: no_faults_def)
  show "same_result (no_faults p p')
          (measure_ancilla_and_flag with_flag p (s, r))
          (measure_ancilla_and_flag with_flag p' (s, r'))"
    unfolding measure_ancilla_and_flag_quiet [OF q(1) h(2)]
      measure_ancilla_and_flag_quiet [OF q(2) h(3)]
    using h
    by (simp add: uniform_draws_stl same_result_Inl same_result_Inr split: sum.splits)
qed

lemma draw_independent_code_capacity_noise:
  "draw_independent (no_faults p p') (code_capacity_noise p) (code_capacity_noise p')"
  unfolding code_capacity_noise_def
  by (rule draw_independent_if, rule draw_independent_on_ckt,
      rule draw_independent_one_stochastic)

lemma draw_independent_first_generator_noise:
  "draw_independent (no_faults p p') (first_generator_noise p) (first_generator_noise p')"
  unfolding first_generator_noise_def
  by (rule draw_independent_if, rule draw_independent_on_ckt,
      rule draw_independent_one_stochastic)

lemmas draw_independent_protocol_steps =
  draw_independent_gate_on_cnot draw_independent_gate_on_xnot
  draw_independent_measure_ancilla_and_flag draw_independent_code_capacity_noise
  draw_independent_first_generator_noise
  draw_independent_on_ckt [OF draw_independent_reset_ancilla]
  draw_independent_on_ckt [OF draw_independent_reset_flag]

lemma list_all2_draw_independent_unflagged:
  "list_all2 (draw_independent (no_faults p p')) (unflagged_circuit_1 p tc) (unflagged_circuit_1 p' tc')"
  "list_all2 (draw_independent (no_faults p p')) (unflagged_circuit_2 p tc) (unflagged_circuit_2 p' tc')"
  "list_all2 (draw_independent (no_faults p p')) (unflagged_circuit_3 p tc) (unflagged_circuit_3 p' tc')"
  "list_all2 (draw_independent (no_faults p p')) (unflagged_circuit_4 p tc) (unflagged_circuit_4 p' tc')"
  by (simp_all add: unflagged_circuit_1_def unflagged_circuit_2_def unflagged_circuit_3_def
        unflagged_circuit_4_def draw_independent_protocol_steps)

lemma list_all2_draw_independent_flagged:
  "list_all2 (draw_independent (no_faults p p')) (flagged_circuit_1 p tc) (flagged_circuit_1 p' tc')"
  "list_all2 (draw_independent (no_faults p p')) (flagged_circuit_2 p tc) (flagged_circuit_2 p' tc')"
  "list_all2 (draw_independent (no_faults p p')) (flagged_circuit_3 p tc) (flagged_circuit_3 p' tc')"
  "list_all2 (draw_independent (no_faults p p')) (flagged_circuit_4 p tc) (flagged_circuit_4 p' tc')"
  by (simp_all add: flagged_circuit_1_def flagged_circuit_2_def flagged_circuit_3_def
        flagged_circuit_4_def draw_independent_protocol_steps)

text \<open>The statements on the records keep the circuit.\<close>

lemma draw_independent_record_steps:
  "draw_independent (no_faults p p')
     (pure_step (\<lambda>s. Inr (s\<lparr>syndrome_2nd_subround := current_syndrome_n_flag s\<rparr>)))
     (pure_step (\<lambda>s. Inr (s\<lparr>syndrome_2nd_subround := current_syndrome_n_flag s\<rparr>)))"
  "draw_independent (no_faults p p')
     (pure_step (\<lambda>s. Inr (s\<lparr>syndrome_n_flag_1st_subround := current_syndrome_n_flag s\<rparr>)))
     (pure_step (\<lambda>s. Inr (s\<lparr>syndrome_n_flag_1st_subround := current_syndrome_n_flag s\<rparr>)))"
  "draw_independent (no_faults p p') (pure_step append_2nd_subround) (pure_step append_2nd_subround)"
  "draw_independent (no_faults p p')
     (pure_step (\<lambda>s. append_1st_subround (current_syndrome_n_flag s) s))
     (pure_step (\<lambda>s. append_1st_subround (current_syndrome_n_flag s) s))"
  "draw_independent (no_faults p p')
     (pure_step (append_1st_subround v)) (pure_step (append_1st_subround v))"
  "draw_independent (no_faults p p') (pure_step (set_status st)) (pure_step (set_status st))"
  "draw_independent (no_faults p p') (pure_step finish_1st_subround) (pure_step finish_1st_subround)"
  "draw_independent (no_faults p p') (pure_step finish_2nd_subround) (pure_step finish_2nd_subround)"
  "draw_independent (no_faults p p')
     (pure_step (\<lambda>s. if syndrome_2nd_subround s \<noteq> PNone then finish_2nd_subround s else Inr s))
     (pure_step (\<lambda>s. if syndrome_2nd_subround s \<noteq> PNone then finish_2nd_subround s else Inr s))"
  "draw_independent (no_faults p p') (pure_step update_syn_ex_status) (pure_step update_syn_ex_status)"
  by (rule draw_independent_pure_step;
      auto simp: append_2nd_subround_def append_1st_subround_def set_status_def
        finish_1st_subround_def finish_2nd_subround_def update_syn_ex_status_def
      split: sum.splits pyval.splits list.splits option.splits prod.splits if_splits)+

lemma draw_independent_syndrome_decoding:
  "draw_independent (no_faults p p') (pure_step syndrome_decoding) (pure_step syndrome_decoding)"
proof (rule draw_independent_pure_step)
  fix s s' assume h: "no_faults p p' s" "syndrome_decoding s = Inr s'"
  have "apply_correction cr s = Inr s' \<Longrightarrow> no_faults p p' s'" for cr
    using h(1) by (auto simp: apply_correction_def split: sum.splits
                        dest!: xor_accumulator_only_acc)
  with h show "no_faults p p' s'"
    by (auto simp: syndrome_decoding_def
             split: sum.splits option.splits lut_entry.splits pyval.splits)
qed

lemmas draw_independent_all_steps =
  draw_independent_protocol_steps draw_independent_record_steps
  list_all2_draw_independent_unflagged list_all2_draw_independent_flagged

lemma draw_independent_measure_full_syndrome_without_flags:
  "draw_independent (no_faults p p')
     (measure_full_syndrome_without_flags tc p) (measure_full_syndrome_without_flags tc' p')"
  unfolding measure_full_syndrome_without_flags_def
  by (rule draw_independent_guard, rule draw_independent_steps)
     (intro list_all2_appendI, simp_all add: draw_independent_all_steps)

lemma draw_independent_flagged_generator_1:
  "draw_independent (no_faults p p') (flagged_generator_1 p tc) (flagged_generator_1 p' tc')"
  unfolding flagged_generator_1_def
  by (rule draw_independent_steps)
     (intro list_all2_appendI, simp_all add: draw_independent_all_steps)

lemma draw_independent_flagged_generator:
  assumes "list_all2 (draw_independent (no_faults p p')) circuit circuit'"
  shows "draw_independent (no_faults p p') (flagged_generator circuit p) (flagged_generator circuit' p')"
  unfolding flagged_generator_def
  by (rule draw_independent_if, rule draw_independent_steps)
     (intro list_all2_appendI assms, simp_all add: draw_independent_all_steps)

lemma draw_independent_flagged_generators:
  "draw_independent (no_faults p p') (flagged_generator_2 p tc) (flagged_generator_2 p' tc')"
  "draw_independent (no_faults p p') (flagged_generator_3 p tc) (flagged_generator_3 p' tc')"
  "draw_independent (no_faults p p') (flagged_generator_4 p tc) (flagged_generator_4 p' tc')"
  unfolding flagged_generator_2_def flagged_generator_3_def flagged_generator_4_def
  by (rule draw_independent_flagged_generator, rule list_all2_draw_independent_flagged)+

lemma draw_independent_remeasure:
  "draw_independent (no_faults p p') (remeasure n p tc) (remeasure n p' tc')"
  unfolding remeasure_def
  by (rule draw_independent_steps)
     (simp add: draw_independent_all_steps draw_independent_measure_full_syndrome_without_flags)

lemma draw_independent_decide:
  assumes "draw_independent (no_faults p p') f g" "draw_independent (no_faults p p') f' g'"
  shows "draw_independent (no_faults p p') (decide f f') (decide g g')"
proof (rule draw_independentI)
  fix s r r' assume h: "no_faults p p' s" "uniform_draws r" "uniform_draws r'"
  then have h': "no_faults p p' (s\<lparr>syndrome_ex_status := MEAS_GEN_WITH_FLAG\<rparr>)" by simp
  show "same_result (no_faults p p') (decide f f' (s, r)) (decide g g' (s, r'))"
    using draw_independentD [OF assms(1) h] draw_independentD [OF assms(2) h' h(2,3)]
    by (simp add: decide_def same_result_Inl)
qed

lemma draw_independent_last_decision:
  "draw_independent (no_faults p p') (last_decision p tc) (last_decision p' tc')"
proof (rule draw_independentI)
  fix s r r' assume h: "no_faults p p' s" "uniform_draws r" "uniform_draws r'"
  have "draw_independent (no_faults p p')
          (steps [pure_step (set_status IDLE), pure_step finish_1st_subround,
                  pure_step (\<lambda>s. if syndrome_2nd_subround s \<noteq> PNone then finish_2nd_subround s
                                  else Inr s)])
          (steps [pure_step (set_status IDLE), pure_step finish_1st_subround,
                  pure_step (\<lambda>s. if syndrome_2nd_subround s \<noteq> PNone then finish_2nd_subround s
                                  else Inr s)])"
    by (rule draw_independent_steps) (simp add: draw_independent_record_steps)
  from draw_independentD [OF this h] draw_independentD [OF draw_independent_remeasure h]
  show "same_result (no_faults p p') (last_decision p tc (s, r)) (last_decision p' tc' (s, r'))"
    by (simp add: last_decision_def del: steps.simps)
qed

lemma draw_independent_from_generator_4:
  "draw_independent (no_faults p p') (from_generator_4 p tc) (from_generator_4 p' tc')"
  unfolding from_generator_4_def
  by (rule draw_independent_steps)
     (simp add: draw_independent_flagged_generators draw_independent_record_steps
        draw_independent_last_decision)

lemma draw_independent_from_generator_3:
  "draw_independent (no_faults p p') (from_generator_3 p tc) (from_generator_3 p' tc')"
  unfolding from_generator_3_def
  by (rule draw_independent_steps)
     (simp add: draw_independent_flagged_generators draw_independent_record_steps
        draw_independent_decide draw_independent_remeasure draw_independent_from_generator_4)

lemma draw_independent_from_generator_2:
  "draw_independent (no_faults p p') (from_generator_2 p tc) (from_generator_2 p' tc')"
  unfolding from_generator_2_def
  by (rule draw_independent_steps)
     (simp add: draw_independent_flagged_generators draw_independent_record_steps
        draw_independent_decide draw_independent_remeasure draw_independent_from_generator_3)

lemma no_faults_enter_extraction [simp]:
  "no_faults p p' (enter_extraction s) = no_faults p p' s"
  by (simp add: no_faults_def enter_extraction_def)

lemma draw_independent_syndrome_extraction:
  "draw_independent (no_faults p p') (syndrome_extraction tc p) (syndrome_extraction tc p')"
proof (rule draw_independentI)
  fix s r r' assume h: "no_faults p p' s" "uniform_draws r" "uniform_draws r'"
  then have h': "no_faults p p' (enter_extraction s)" by simp
  have "draw_independent (no_faults p p')
          (steps [flagged_generator_1 p tc, pure_step update_syn_ex_status,
                  decide (remeasure 3 p tc) (from_generator_2 p tc)])
          (steps [flagged_generator_1 p' tc, pure_step update_syn_ex_status,
                  decide (remeasure 3 p' tc) (from_generator_2 p' tc)])"
    by (rule draw_independent_steps)
       (simp add: draw_independent_flagged_generator_1 draw_independent_record_steps
          draw_independent_decide draw_independent_remeasure draw_independent_from_generator_2)
  from draw_independentD [OF this h' h(2,3)]
  show "same_result (no_faults p p') (syndrome_extraction tc p (s, r))
          (syndrome_extraction tc p' (s, r'))"
    by (simp add: syndrome_extraction_def same_result_Inl del: steps.simps)
qed

lemma draw_independent_cycle:
  "draw_independent (no_faults p p')
     (steps [syndrome_extraction tc p, pure_step syndrome_decoding])
     (steps [syndrome_extraction tc p', pure_step syndrome_decoding])"
  by (rule draw_independent_steps)
     (simp add: draw_independent_syndrome_extraction draw_independent_syndrome_decoding)

lemma quiet_minus_one:
  assumes "0 \<le> error_scale_factor_two_qubit_gate c" "0 \<le> error_scale_factor_single_qubit_gate c"
    "0 \<le> error_scale_factor_prep c" "0 \<le> error_scale_factor_meas c"
  shows "quiet (- 1) c"
  using assms by (simp add: quiet_def)

lemma uniform_draws_sdrop: "uniform_draws r \<Longrightarrow> uniform_draws (sdrop n r)"
  by (induction n arbitrary: r) (simp_all add: uniform_draws_stl)

lemma one_stochastic_no_fault:
  assumes "p \<le> 0" "uniform_draws r"
  shows "steps (map (\<lambda>n (c, r).
                   if shd r < p then
                     (case get_item (data_qubits c) n of
                        Inl e \<Rightarrow> Inl e
                      | Inr q \<Rightarrow>
                          (case depol_choice (shd (stl r)) q c of
                             Inl e \<Rightarrow> Inl e
                           | Inr c' \<Rightarrow> Inr (c', stl (stl r))))
                   else Inr (c, stl r))
                [0..<k]) (c, r) = Inr (c, sdrop k r)"
proof (induction k)
  case 0
  show ?case by simp
next
  case (Suc k)
  let ?body = "\<lambda>n (c, r).
                   if shd r < p then
                     (case get_item (data_qubits c) n of
                        Inl e \<Rightarrow> Inl e
                      | Inr q \<Rightarrow>
                          (case depol_choice (shd (stl r)) q c of
                             Inl e \<Rightarrow> Inl e
                           | Inr c' \<Rightarrow> Inr (c', stl (stl r))))
                   else Inr (c, stl r)"
  have nf: "\<not> shd (sdrop k r) < p"
    by (rule no_fault [OF uniform_draws_sdrop [OF assms(2)] assms(1)])
  have e: "sdrop (Suc k) r = stl (sdrop k r)"
    by simp
  have "steps (map ?body [0..<Suc k]) (c, r) =
          (case steps (map ?body [0..<k]) (c, r) of
             Inl e \<Rightarrow> Inl e
           | Inr s' \<Rightarrow> steps [?body k] s')"
    by (simp add: steps_append del: steps.simps)
  also have "\<dots> = steps [?body k] (c, sdrop k r)"
    by (simp only: Suc sum.case)
  also have "\<dots> = Inr (c, stl (sdrop k r))"
    using nf by (simp del: sdrop_simps)
  finally show ?case
    unfolding e .
qed

text \<open>
  Claim C2.  The extra cycle of \<^verbatim>\<open>logical_error_tracking\<close> is
  \<^verbatim>\<open>self.syndrome_extraction(test_config=None, p_err=-1)\<close> followed by
  \<^verbatim>\<open>self.syndrome_decoding()\<close>.  For a protocol object whose circuit has scale factors
  that are not negative (every error model gives such factors), and for every stream of
  draws of \<^verbatim>\<open>np.random.uniform()\<close>:

  \<^item> the cycle ends as the same cycle run at the rate \<open>p = 0\<close> on any other stream of
    draws: both raise the same exception or both return the same protocol object, so
    the result does not depend on the draws;

  \<^item> at the thresholds the cycle uses, on the circuit with any accumulator \<open>a\<close>, the
    fault after a preparation, the fault after a gate and the code-capacity noise only
    consume their draws and leave the circuit as it is, and a measurement returns the
    bit of the accumulator, not flipped.
\<close>

theorem resynchronization_injects_no_fault:
  assumes "0 \<le> error_scale_factor_two_qubit_gate (qec_flag_base_ckt s)"
    and "0 \<le> error_scale_factor_single_qubit_gate (qec_flag_base_ckt s)"
    and "0 \<le> error_scale_factor_prep (qec_flag_base_ckt s)"
    and "0 \<le> error_scale_factor_meas (qec_flag_base_ckt s)"
    and "uniform_draws r" and "uniform_draws r'"
    and "c = (qec_flag_base_ckt s)\<lparr>pauli_accumulator := a\<rparr>"
  shows "map_sum id fst (resynchronization (s, r)) =
           map_sum id fst (steps [syndrome_extraction None 0, pure_step syndrome_decoding] (s, r')) \<and>
         single_qubit_X_error q (error_scale_factor_prep c * (- 1)) (c, r) = Inr (c, stl r) \<and>
         single_qubit_Z_error q (error_scale_factor_prep c * (- 1)) (c, r) = Inr (c, stl r) \<and>
         single_qubit_depol_error q (error_scale_factor_single_qubit_gate c * (- 1)) (c, r) =
           Inr (c, stl r) \<and>
         two_qubit_gate_error None loc q1 q2 (error_scale_factor_two_qubit_gate c * (- 1)) (c, r) =
           Inr (c, stl r) \<and>
         one_stochastic_pauli_error_data_qubits (- 1) (c, r) = Inr (c, sdrop (num_data_qubits c) r) \<and>
         measure_Z_basis q (- 1) (c, r) =
           (case get_item (pauli_accumulator c) q of
              Inl e \<Rightarrow> Inl e
            | Inr b \<Rightarrow> Inr (if b = 1 then 1 else 0, (c, stl r))) \<and>
         measure_X_basis q (- 1) (c, r) =
           (case get_item (pauli_accumulator c) (q + num_all_qubits c) of
              Inl e \<Rightarrow> Inl e
            | Inr b \<Rightarrow> Inr (if b = 1 then 1 else 0, (c, stl r)))"
proof -
  have q1: "quiet (- 1) (qec_flag_base_ckt s)"
    by (rule quiet_minus_one) (rule assms)+
  then have qc: "quiet (- 1) c" by (simp add: assms(7))
  have "no_faults (- 1) 0 s" using q1 by (simp add: no_faults_def)
  from draw_independentD [OF draw_independent_cycle this assms(5,6)]
  have main: "map_sum id fst (resynchronization (s, r)) =
           map_sum id fst (steps [syndrome_extraction None 0, pure_step syndrome_decoding] (s, r'))"
    unfolding resynchronization_def by (rule same_result_map_sum)
  note nf = no_fault [OF assms(5)]
  have x: "single_qubit_X_error q (error_scale_factor_prep c * (- 1)) (c, r) = Inr (c, stl r)"
    using nf [OF quietD(4) [OF qc]] by (simp add: single_qubit_X_error_def)
  have z: "single_qubit_Z_error q (error_scale_factor_prep c * (- 1)) (c, r) = Inr (c, stl r)"
    using nf [OF quietD(4) [OF qc]] by (simp add: single_qubit_Z_error_def)
  have d: "single_qubit_depol_error q (error_scale_factor_single_qubit_gate c * (- 1)) (c, r) =
             Inr (c, stl r)"
    using nf [OF quietD(3) [OF qc]] by (simp add: single_qubit_depol_error_def)
  have g: "two_qubit_gate_error None loc q1 q2 (error_scale_factor_two_qubit_gate c * (- 1)) (c, r) =
             Inr (c, stl r)"
    using nf [OF quietD(2) [OF qc]]
    by (simp add: two_qubit_gate_error_None two_qubit_gate_depol_error_def)
  have n: "one_stochastic_pauli_error_data_qubits (- 1) (c, r) =
             Inr (c, sdrop (num_data_qubits c) r)"
    unfolding one_stochastic_pauli_error_data_qubits_def prod.case
    by (rule one_stochastic_no_fault [OF _ assms(5)]) simp
  note mz = measure_Z_basis_quiet [OF qc assms(5), of q]
  note mx = measure_X_basis_quiet [OF qc assms(5), of q]
  show ?thesis
    using main x z d g n mz mx by (simp only: simp_thms)
qed

theorem resynchronization_injects_no_fault_witness:
  "0 \<le> error_scale_factor_two_qubit_gate (qec_flag_base_ckt default_protocol) \<and>
   0 \<le> error_scale_factor_single_qubit_gate (qec_flag_base_ckt default_protocol) \<and>
   0 \<le> error_scale_factor_prep (qec_flag_base_ckt default_protocol) \<and>
   0 \<le> error_scale_factor_meas (qec_flag_base_ckt default_protocol) \<and>
   uniform_draws (sconst (1 / 100)) \<and> uniform_draws (sconst (1 / 2)) \<and>
   map_sum id fst (resynchronization (default_protocol, sconst (1 / 100))) =
     map_sum id fst (steps [syndrome_extraction None 0, pure_step syndrome_decoding]
                       (default_protocol, sconst (1 / 2))) \<and>
   single_qubit_X_error 5
     (error_scale_factor_prep (qec_flag_base_ckt default_protocol) * (- 1))
     (qec_flag_base_ckt default_protocol, sconst (1 / 100)) =
     Inr (qec_flag_base_ckt default_protocol, stl (sconst (1 / 100))) \<and>
   two_qubit_gate_error None 1 0 5
     (error_scale_factor_two_qubit_gate (qec_flag_base_ckt default_protocol) * (- 1))
     (qec_flag_base_ckt default_protocol, sconst (1 / 100)) =
     Inr (qec_flag_base_ckt default_protocol, stl (sconst (1 / 100))) \<and>
   measure_Z_basis 5 (- 1) (qec_flag_base_ckt default_protocol, sconst (1 / 100)) =
     Inr (0, (qec_flag_base_ckt default_protocol, stl (sconst (1 / 100))))"
proof -
  have h: "0 \<le> error_scale_factor_two_qubit_gate (qec_flag_base_ckt default_protocol)"
    "0 \<le> error_scale_factor_single_qubit_gate (qec_flag_base_ckt default_protocol)"
    "0 \<le> error_scale_factor_prep (qec_flag_base_ckt default_protocol)"
    "0 \<le> error_scale_factor_meas (qec_flag_base_ckt default_protocol)"
    by (simp_all add: default_protocol_simps)
  have u: "uniform_draws (sconst (1 / 100))" "uniform_draws (sconst (1 / 2))"
    by (simp_all add: uniform_draws_def)
  have c: "qec_flag_base_ckt default_protocol =
             (qec_flag_base_ckt default_protocol)
               \<lparr>pauli_accumulator := pauli_accumulator (qec_flag_base_ckt default_protocol)\<rparr>"
    by simp
  note inst = resynchronization_injects_no_fault [OF h u c, where q = 5 and loc = 1 and ?q1.0 = 0 and ?q2.0 = 5]
  have b: "get_item (pauli_accumulator (qec_flag_base_ckt default_protocol)) 5 = Inr 0"
    by (simp add: default_protocol_simps get_item_def replicate_numeral_Cons)
  from inst have m: "measure_Z_basis 5 (- 1) (qec_flag_base_ckt default_protocol, sconst (1 / 100)) =
     Inr (0, (qec_flag_base_ckt default_protocol, stl (sconst (1 / 100))))"
    by (simp only: b sum.case) simp
  show ?thesis using h u inst m by (simp only: simp_thms)
qed

section \<open>Verification: the decoder\<close>

lemma length_extend_correction:
  "length correction = 2 * k \<Longrightarrow> length (extend_correction k af correction) = 2 * (k + af)"
  by (simp add: extend_correction_def)

lemma apply_correction_ok:
  assumes "length (pauli_accumulator (qec_flag_base_ckt s)) = 2 * stab_num_all_qubits s"
    and "length correction = 2 * stab_num_data_qubits s"
  shows "apply_correction correction s =
     Inr (s\<lparr>qec_flag_base_ckt := (qec_flag_base_ckt s)
              \<lparr>pauli_accumulator :=
                 map2 lxor (pauli_accumulator (qec_flag_base_ckt s))
                   (extend_correction (stab_num_data_qubits s)
                      (stab_num_anc_qubits s + stab_num_flag_qubits s) correction)\<rparr>\<rparr>)"
  using assms
  by (simp add: apply_correction_def xor_accumulator_def logical_xor_same_length
        length_extend_correction stab_num_all_qubits_def add.assoc)

text \<open>
  Claim C1, as the code has it.  With finished records (each \<^verbatim>\<open>None\<close> or a string):
  when the 1st-subround record is a key of the outer table, the outer value is a
  dictionary and the 2nd-subround record is a key of that dictionary, the correction
  found, extended by zeros over the ancilla and flag qubits, is composed with the
  accumulator by XOR (for an accumulator of \<open>2 * N\<close> entries of any value and a correction
  of \<open>2 * k\<close> entries); in every other case, a miss at either level or an outer value that
  is itself a correction, the state is returned unchanged.
\<close>

theorem syndrome_decoding_applies_iff:
  assumes "syndrome_n_flag_1st_subround s = PNone \<or> (\<exists>k1. syndrome_n_flag_1st_subround s = PStr k1)"
    and "syndrome_2nd_subround s = PNone \<or> (\<exists>k2. syndrome_2nd_subround s = PStr k2)"
    and "length (pauli_accumulator (qec_flag_base_ckt s)) = 2 * stab_num_all_qubits s"
  shows "(\<forall>k1 d k2 correction.
            syndrome_n_flag_1st_subround s = PStr k1 \<and>
            syndrome_lookup_table s k1 = Some (Inner d) \<and>
            syndrome_2nd_subround s = PStr k2 \<and>
            d k2 = Some correction \<and>
            length correction = 2 * stab_num_data_qubits s \<longrightarrow>
            syndrome_decoding s =
              Inr (s\<lparr>qec_flag_base_ckt := (qec_flag_base_ckt s)
                   \<lparr>pauli_accumulator :=
                      map2 lxor (pauli_accumulator (qec_flag_base_ckt s))
                        (take (stab_num_data_qubits s) correction @
                         replicate (stab_num_anc_qubits s + stab_num_flag_qubits s) 0 @
                         drop (stab_num_data_qubits s) correction @
                         replicate (stab_num_anc_qubits s + stab_num_flag_qubits s) 0)\<rparr>\<rparr>)) \<and>
         ((\<nexists>k1 d k2 correction.
            syndrome_n_flag_1st_subround s = PStr k1 \<and>
            syndrome_lookup_table s k1 = Some (Inner d) \<and>
            syndrome_2nd_subround s = PStr k2 \<and>
            d k2 = Some correction) \<longrightarrow>
          syndrome_decoding s = Inr s)"
proof (intro conjI allI impI)
  fix k1 d k2 correction
  assume h: "syndrome_n_flag_1st_subround s = PStr k1 \<and>
            syndrome_lookup_table s k1 = Some (Inner d) \<and>
            syndrome_2nd_subround s = PStr k2 \<and>
            d k2 = Some correction \<and>
            length correction = 2 * stab_num_data_qubits s"
  then have len: "length correction = 2 * stab_num_data_qubits s" by simp
  have ext: "extend_correction (stab_num_data_qubits s)
               (stab_num_anc_qubits s + stab_num_flag_qubits s) correction =
             take (stab_num_data_qubits s) correction @
             replicate (stab_num_anc_qubits s + stab_num_flag_qubits s) 0 @
             drop (stab_num_data_qubits s) correction @
             replicate (stab_num_anc_qubits s + stab_num_flag_qubits s) 0"
    using len by (simp add: extend_correction_def)
  have "syndrome_decoding s = apply_correction correction s"
    using h by (simp add: syndrome_decoding_def dict_find_def)
  then show "syndrome_decoding s =
              Inr (s\<lparr>qec_flag_base_ckt := (qec_flag_base_ckt s)
                   \<lparr>pauli_accumulator :=
                      map2 lxor (pauli_accumulator (qec_flag_base_ckt s))
                        (take (stab_num_data_qubits s) correction @
                         replicate (stab_num_anc_qubits s + stab_num_flag_qubits s) 0 @
                         drop (stab_num_data_qubits s) correction @
                         replicate (stab_num_anc_qubits s + stab_num_flag_qubits s) 0)\<rparr>\<rparr>)"
    using apply_correction_ok [OF assms(3) len] ext by simp
next
  assume miss: "\<nexists>k1 d k2 correction.
            syndrome_n_flag_1st_subround s = PStr k1 \<and>
            syndrome_lookup_table s k1 = Some (Inner d) \<and>
            syndrome_2nd_subround s = PStr k2 \<and>
            d k2 = Some correction"
  show "syndrome_decoding s = Inr s"
    using assms(1,2) miss
    by (auto simp: syndrome_decoding_def dict_find_def split: option.splits lut_entry.splits)
qed

theorem syndrome_decoding_applies_iff_witness:
  "(syndrome_n_flag_1st_subround decoding_example = PNone \<or>
      (\<exists>k1. syndrome_n_flag_1st_subround decoding_example = PStr k1)) \<and>
   (syndrome_2nd_subround decoding_example = PNone \<or>
      (\<exists>k2. syndrome_2nd_subround decoding_example = PStr k2)) \<and>
   length (pauli_accumulator (qec_flag_base_ckt decoding_example)) =
     2 * stab_num_all_qubits decoding_example \<and>
   syndrome_decoding decoding_example =
     Inr (decoding_example\<lparr>qec_flag_base_ckt := (qec_flag_base_ckt decoding_example)
            \<lparr>pauli_accumulator := [0, 0, 0, 0, 0, 0, 0, 0, 0, 0, 0, 0, 0, 0]\<rparr>\<rparr>)"
proof -
  have h1: "syndrome_n_flag_1st_subround decoding_example = PNone \<or>
      (\<exists>k1. syndrome_n_flag_1st_subround decoding_example = PStr k1)"
    by (simp add: decoding_example_def)
  have h2: "syndrome_2nd_subround decoding_example = PNone \<or>
      (\<exists>k2. syndrome_2nd_subround decoding_example = PStr k2)"
    by (simp add: decoding_example_def)
  have h3: "length (pauli_accumulator (qec_flag_base_ckt decoding_example)) =
     2 * stab_num_all_qubits decoding_example"
    by (simp add: decoding_example_def default_protocol_simps stab_num_all_qubits_def)
  have found: "syndrome_n_flag_1st_subround decoding_example =
        PStr ''[[1 0] [None None] [None None] [None None]]'' \<and>
      syndrome_lookup_table decoding_example ''[[1 0] [None None] [None None] [None None]]'' =
        Some (Inner five_qubit_code_no_flag_LUT) \<and>
      syndrome_2nd_subround decoding_example = PStr ''[0 0 0 1]'' \<and>
      five_qubit_code_no_flag_LUT ''[0 0 0 1]'' = Some [1, 0, 0, 0, 0, 0, 0, 0, 0, 0] \<and>
      length [1, 0, 0, 0, 0, 0, 0, 0, 0, 0 :: int] = 2 * stab_num_data_qubits decoding_example"
    by (simp add: decoding_example_def default_protocol_simps five_qubit_code_flag_min_wt_LUT_def
          five_qubit_code_no_flag_LUT_def)
  from syndrome_decoding_applies_iff [OF h1 h2 h3] found
  have "syndrome_decoding decoding_example =
      Inr (decoding_example\<lparr>qec_flag_base_ckt := (qec_flag_base_ckt decoding_example)
           \<lparr>pauli_accumulator :=
              map2 lxor (pauli_accumulator (qec_flag_base_ckt decoding_example))
                (take (stab_num_data_qubits decoding_example) [1, 0, 0, 0, 0, 0, 0, 0, 0, 0] @
                 replicate (stab_num_anc_qubits decoding_example +
                            stab_num_flag_qubits decoding_example) 0 @
                 drop (stab_num_data_qubits decoding_example) [1, 0, 0, 0, 0, 0, 0, 0, 0, 0] @
                 replicate (stab_num_anc_qubits decoding_example +
                            stab_num_flag_qubits decoding_example) 0)\<rparr>\<rparr>)"
    by blast
  moreover have "map2 lxor (pauli_accumulator (qec_flag_base_ckt decoding_example))
                (take (stab_num_data_qubits decoding_example) [1, 0, 0, 0, 0, 0, 0, 0, 0, 0] @
                 replicate (stab_num_anc_qubits decoding_example +
                            stab_num_flag_qubits decoding_example) 0 @
                 drop (stab_num_data_qubits decoding_example) [1, 0, 0, 0, 0, 0, 0, 0, 0, 0] @
                 replicate (stab_num_anc_qubits decoding_example +
                            stab_num_flag_qubits decoding_example) 0) =
        [0, 0, 0, 0, 0, 0, 0, 0, 0, 0, 0, 0, 0, 0]"
    by (simp add: decoding_example_def default_protocol_simps lxor_def)
  ultimately show ?thesis using h1 h2 h3 by simp
qed

theorem syndrome_decoding_terminal_counterexample:
  "syndrome_n_flag_1st_subround terminal_example = PStr ''[[0 0] [0 0] [0 0] [0 0]]'' \<and>
   syndrome_lookup_table terminal_example ''[[0 0] [0 0] [0 0] [0 0]]'' =
     Some (Terminal [1, 0, 0, 0, 0, 0, 0, 0, 0, 0]) \<and>
   syndrome_decoding terminal_example = Inr terminal_example \<and>
   apply_correction [1, 0, 0, 0, 0, 0, 0, 0, 0, 0] terminal_example \<noteq> Inr terminal_example"
proof -
  have "pauli_accumulator (qec_flag_base_ckt terminal_example) =
          [0, 0, 0, 0, 0, 0, 0, 0, 0, 0, 0, 0, 0, 0]"
    by (simp add: terminal_example_def default_protocol_simps replicate_numeral_Cons)
  moreover have "\<exists>s'. apply_correction [1, 0, 0, 0, 0, 0, 0, 0, 0, 0] terminal_example = Inr s' \<and>
      pauli_accumulator (qec_flag_base_ckt s') = [1, 0, 0, 0, 0, 0, 0, 0, 0, 0, 0, 0, 0, 0]"
    by (simp add: terminal_example_def default_protocol_simps apply_correction_def
          xor_accumulator_def logical_xor_def extend_correction_def lxor_def
          replicate_numeral_Cons)
  ultimately have "apply_correction [1, 0, 0, 0, 0, 0, 0, 0, 0, 0] terminal_example \<noteq>
      Inr terminal_example"
    by auto
  moreover have "syndrome_decoding terminal_example = Inr terminal_example"
    by (simp add: terminal_example_def syndrome_decoding_def dict_find_def)
  ultimately show ?thesis
    by (simp add: terminal_example_def)
qed

section \<open>Verification: directed overrides\<close>

lemma gates_ignore_override:
  "cnot q1 q2 p tc loc = cnot q1 q2 p None loc'"
  "xnot q1 q2 p tc loc = xnot q1 q2 p None loc'"
  "ynot q1 q2 p tc loc = ynot q1 q2 p None loc'"
  "cz q1 q2 p tc loc = cz q1 q2 p None loc'"
  by (simp_all add: cnot_def xnot_def ynot_def cz_def two_qubit_gate_error_None)





section \<open>Verification: the entry of the extraction\<close>

text \<open>
  Claim C5, at the input where the code departs from it: the protocol object of the
  constructor, status \<^verbatim>\<open>IDLE\<close>, and an override directed at location 0.  The call
  raises AttributeError, an error that is none of the two assertions.
\<close>

theorem syndrome_extraction_override_at_0_raises:
  "syndrome_ex_status default_protocol = IDLE \<and>
   syndrome_extraction (Some override_at_0) 0 (default_protocol, sconst (1 / 2)) =
     Inl AttributeError"
  by (simp add: syndrome_extraction_def directed_at_0_def override_at_0_def
        default_protocol_simps)

section \<open>Verification: the distributed driver\<close>

lemma sum_indicator_below: "r \<le> W \<Longrightarrow> (\<Sum>k<W. if k < r then (1::nat) else 0) = r"
proof (induction W)
  case 0 then show ?case by simp
next
  case (Suc W)
  show ?case
  proof (cases "r \<le> W")
    case True
    then show ?thesis using Suc.IH by simp
  next
    case False
    then have "r = Suc W" using Suc.prems by simp
    then show ?thesis by simp
  qed
qed

lemma batch_sum: "0 < W \<Longrightarrow> (\<Sum>k<W. S div W + (if k < S mod W then 1 else 0)) = (S::nat)"
proof -
  assume W: "0 < W"
  have "S mod W \<le> W" using W by (simp add: less_imp_le)
  then have "(\<Sum>k<W. if k < S mod W then (1::nat) else 0) = S mod W"
    by (rule sum_indicator_below)
  then have "(\<Sum>k<W. S div W + (if k < S mod W then 1 else 0)) = W * (S div W) + S mod W"
    by (simp add: sum.distrib)
  then show ?thesis by simp
qed

lemma aggregate_per_rate:
  "per_rate (aggregate rs cr) p =
     (if \<exists>r\<in>set rs. d_p_phys r = p
      then Some ((case per_rate cr p of None \<Rightarrow> 0 | Some c \<Rightarrow> c) +
                 sum_list (map d_logical_error_counts (filter (\<lambda>r. d_p_phys r = p) rs)))
      else per_rate cr p)"
  by (induction rs arbitrary: cr) (auto simp: add_result_def split: option.splits)

lemma aggregate_total:
  "total_samples (aggregate rs cr) = total_samples cr + sum_list (map d_batch_size rs)"
  by (induction rs arbitrary: cr) (auto simp: add_result_def)

lemma collect_map_Inr: "collect (map (\<lambda>k. Inr (f k)) ks) = Inr (map f ks)"
  by (induction ks) auto

lemma filter_concat_map_sum:
  "sum_list (map d_logical_error_counts (filter P (concat (map f ks)))) =
   sum_list (map (\<lambda>k. sum_list (map d_logical_error_counts (filter P (f k)))) ks)"
  by (induction ks) auto

lemma batch_size_Inr:
  "0 < W \<Longrightarrow> batch_size S W k = Inr (S div W + (if k < S mod W then 1 else 0))"
  by (simp add: batch_size_def Let_def)

lemma upt_from_0: "0 < W \<Longrightarrow> 0 # [1..<W] = [0..<W]"
  by (simp add: upt_conv_Cons)

lemma sum_list_concat_map_nat:
  "sum_list (map g (concat (map f ks))) = sum_list (map (\<lambda>k. sum_list (map g (f k))) ks)"
  for g :: "'a \<Rightarrow> nat"
  by (induction ks) auto

lemma sum_list_const_upt: "sum_list (map (\<lambda>j. c) [0..<n]) = n * (c::nat)"
  by (induction n) auto

text \<open>
  Claim C8.  For every number of workers \<open>W \<ge> 1\<close> and every \<open>samples_per_point\<close>
  \<open>S\<close>: every rank gets a batch size \<open>b k\<close>, the batch sizes of the \<open>W\<close> ranks sum
  to exactly \<open>S\<close>, a rank below the remainder \<open>S mod W\<close> gets exactly one round more than
  a rank that is not and ranks on the same side get the same number; and the count the
  coordinator holds for a rate is the sum, over all ranks, of the counts the rank reports
  for that rate (the total number of samples being \<open>S\<close> times the number of rates).
\<close>

theorem mpi_batches_and_counts:
  assumes "1 \<le> W"
  shows "\<exists>b cr.
     (\<forall>k. batch_size S W k = Inr (b k)) \<and>
     (\<Sum>k<W. b k) = S \<and>
     (\<forall>k k'. k < S mod W \<longrightarrow> \<not> k' < S mod W \<longrightarrow> b k = b k' + 1) \<and>
     (\<forall>k k'. (k < S mod W) = (k' < S mod W) \<longrightarrow> b k = b k') \<and>
     p_phys_sweep_simulation_mpi S W p_phys count = Inr cr \<and>
     (\<forall>p\<in>set p_phys. per_rate cr p =
        Some (sum_list (map (\<lambda>k. sum_list (map (count k)
                (filter (\<lambda>j. p_phys ! j = p) [0..<length p_phys]))) [0..<W]))) \<and>
     total_samples cr = length p_phys * S"
proof -
  have W: "0 < W" using assms by simp
  define b where "b k = S div W + (if k < S mod W then 1 else 0)" for k
  define dict where "dict k j = \<lparr> d_rank = k, d_p_phys = p_phys ! j,
                           d_batch_size = b k, d_logical_error_counts = count k j \<rparr>" for k j
  define rs where "rs = concat (map (\<lambda>k. map (dict k) [0..<length p_phys]) [0..<W])"
  define cr where "cr = aggregate rs \<lparr> per_rate = Map.empty, total_samples = 0 \<rparr>"
  have bs: "\<And>k. batch_size S W k = Inr (b k)"
    using W by (simp add: batch_size_Inr b_def)
  have sum: "(\<Sum>k<W. b k) = S"
    unfolding b_def using W by (rule batch_sum)
  have loc: "\<And>k. local_results S W p_phys (count k) k = Inr (map (dict k) [0..<length p_phys])"
    by (simp add: local_results_def bs dict_def)
  have run: "p_phys_sweep_simulation_mpi S W p_phys count = Inr cr"
    unfolding p_phys_sweep_simulation_mpi_def upt_from_0 [OF W]
    by (simp add: loc collect_map_Inr cr_def rs_def)
  have per: "per_rate cr p =
        Some (sum_list (map (\<lambda>k. sum_list (map (count k)
                (filter (\<lambda>j. p_phys ! j = p) [0..<length p_phys]))) [0..<W]))"
    if p: "p \<in> set p_phys" for p
  proof -
    from p obtain j where j: "j < length p_phys" "p_phys ! j = p"
      by (auto simp: in_set_conv_nth)
    have "dict 0 j \<in> set rs"
      using W j by (auto simp: rs_def intro!: bexI [of _ 0])
    moreover have "d_p_phys (dict 0 j) = p" using j by (simp add: dict_def)
    ultimately have ex: "\<exists>r\<in>set rs. d_p_phys r = p" by blast
    have inner: "sum_list (map d_logical_error_counts
                   (filter (\<lambda>r. d_p_phys r = p) (map (dict k) [0..<length p_phys]))) =
                 sum_list (map (count k) (filter (\<lambda>j. p_phys ! j = p) [0..<length p_phys]))" for k
      by (simp add: filter_map comp_def dict_def)
    show ?thesis
      unfolding cr_def aggregate_per_rate using ex
      by (simp add: rs_def filter_concat_map_sum inner)
  qed
  have tot: "total_samples cr = length p_phys * S"
  proof -
    have "sum_list (map d_batch_size rs) =
          sum_list (map (\<lambda>k. length p_phys * b k) [0..<W])"
      by (simp add: rs_def sum_list_concat_map_nat comp_def dict_def sum_list_const_upt)
     also have "\<dots> = length p_phys * (\<Sum>k<W. b k)"
      by (simp add: sum_list_const_mult interv_sum_list_conv_sum_set_nat atLeast0LessThan)
    finally show ?thesis by (simp add: cr_def aggregate_total sum)
  qed
  have more: "\<forall>k k'. k < S mod W \<longrightarrow> \<not> k' < S mod W \<longrightarrow> b k = b k' + 1"
    by (simp add: b_def)
  have same: "\<forall>k k'. (k < S mod W) = (k' < S mod W) \<longrightarrow> b k = b k'"
    by (simp add: b_def)
  show ?thesis
    using bs sum more same run per tot by blast
qed

theorem mpi_batches_and_counts_witness:
  "(1::nat) \<le> 3 \<and> (\<exists>b cr.
     (\<forall>k. batch_size 10 3 k = Inr (b k)) \<and>
     (\<Sum>k<3. b k) = 10 \<and>
     (\<forall>k k'. k < 10 mod (3::nat) \<longrightarrow> \<not> k' < 10 mod (3::nat) \<longrightarrow> b k = b k' + 1) \<and>
     (\<forall>k k'. (k < 10 mod (3::nat)) = (k' < 10 mod (3::nat)) \<longrightarrow> b k = b k') \<and>
     p_phys_sweep_simulation_mpi 10 3 [1/1000, 1/100] (\<lambda>k j. int (k + j)) = Inr cr \<and>
     (\<forall>p\<in>set [1/1000, 1/100::real]. per_rate cr p =
        Some (sum_list (map (\<lambda>k. sum_list (map (\<lambda>j. int (k + j))
                (filter (\<lambda>j. [1/1000, 1/100::real] ! j = p) [0..<length [1/1000, 1/100::real]]))) [0..<3]))) \<and>
     total_samples cr = length [1/1000, 1/100::real] * 10)"
  using mpi_batches_and_counts [of 3 10 "[1/1000, 1/100]" "\<lambda>k j. int (k + j)"] by simp

end
